theory Spec2Isabelle
  imports Complex_Main
begin

section \<open>HomeGenie MCP server: the mock generators and their reports\<close>

text \<open>
  The development follows \<^verbatim>\<open>homegenie_mcp_server.py\<close>. Python floats are modelled
  by exact rationals (every float literal of the source is a short decimal), Python
  strings by \<^typ>\<open>string\<close>, and the two ambient inputs of the source, the wall clock
  (\<^verbatim>\<open>datetime.now()\<close>) and the random source (\<^verbatim>\<open>random\<close>), are explicit arguments.
  The log lines the tools write are not modelled.
\<close>

subsection \<open>Numbers\<close>

text \<open>
  \<^verbatim>\<open>round(x, ndigits)\<close> on a float rounds to the nearest multiple of \<open>10 ^ -ndigits\<close>,
  a tie going to the even neighbour.
\<close>

definition round_half_even :: "rat \<Rightarrow> int" where
  "round_half_even y =
     (let f = \<lfloor>y\<rfloor>; d = y - of_int f
      in if d < 1 / 2 then f else if 1 / 2 < d then f + 1 else if even f then f else f + 1)"

definition py_round :: "rat \<Rightarrow> nat \<Rightarrow> rat" where
  "py_round x ndigits = of_int (round_half_even (x * 10 ^ ndigits)) / 10 ^ ndigits"

subsection \<open>The pricing tier\<close>

text \<open>
  The source writes the same three-way branch twice, once on \<^verbatim>\<open>hour\<close> (lines 68-76)
  and once on \<^verbatim>\<open>f_hour\<close> inside the forecast loop (lines 88-96). It is one function
  here, returning the pair (multiplier, period).
\<close>

definition base_price :: rat where
  "base_price = 25 / 100"

definition pricing_tier :: "nat \<Rightarrow> rat \<times> string" where
  "pricing_tier hour =
     (if (7 \<le> hour \<and> hour \<le> 9) \<or> (17 \<le> hour \<and> hour \<le> 20) then (18 / 10, ''peak'')
      else if hour \<ge> 22 \<or> hour \<le> 6 then (7 / 10, ''off_peak'')
      else (1, ''standard''))"

definition tier_multiplier :: "nat \<Rightarrow> rat" where
  "tier_multiplier hour = fst (pricing_tier hour)"

definition tier_label :: "nat \<Rightarrow> string" where
  "tier_label hour = snd (pricing_tier hour)"

text \<open>
  The table of the specification, row by row in table order, the first matching row
  deciding: hours 7-9 or 17-20 are peak, hours 22-23 or 0-6 are off-peak, every other
  hour is standard.
\<close>

definition spec_peak_hours :: "nat set" where
  "spec_peak_hours = {7, 8, 9} \<union> {17, 18, 19, 20}"

definition spec_off_peak_hours :: "nat set" where
  "spec_off_peak_hours = {22, 23} \<union> {0, 1, 2, 3, 4, 5, 6}"

definition spec_standard_hours :: "nat set" where
  "spec_standard_hours = {10, 11, 12, 13, 14, 15, 16} \<union> {21}"

definition spec_tier :: "nat \<Rightarrow> rat \<times> string" where
  "spec_tier h =
     (if h \<in> spec_peak_hours then (18 / 10, ''peak'')
      else if h \<in> spec_off_peak_hours then (7 / 10, ''off_peak'')
      else (1, ''standard''))"

subsection \<open>Strings\<close>

text \<open>
  A Python \<^verbatim>\<open>str\<close> is modelled by the bytes of its UTF-8 encoding, so every ASCII
  character is one \<^typ>\<open>char\<close>. The helpers below are the library operations the source
  applies to strings: \<^verbatim>\<open>in\<close>, \<^verbatim>\<open>replace\<close>, \<^verbatim>\<open>title\<close>, and
  the formatting of numbers inside f-strings.
\<close>

fun starts_with :: "string \<Rightarrow> string \<Rightarrow> bool" where
  "starts_with [] s = True"
| "starts_with (p # ps) [] = False"
| "starts_with (p # ps) (c # cs) = (p = c \<and> starts_with ps cs)"

text \<open>\<^verbatim>\<open>sub in s\<close>: \<^verbatim>\<open>sub\<close> occurs in \<^verbatim>\<open>s\<close> as a contiguous run, letter case included.\<close>

fun str_contains :: "string \<Rightarrow> string \<Rightarrow> bool" where
  "str_contains sub [] = (sub = [])"
| "str_contains sub (c # cs) = (starts_with sub (c # cs) \<or> str_contains sub cs)"

definition str_replace_char :: "char \<Rightarrow> char \<Rightarrow> string \<Rightarrow> string" where
  "str_replace_char old new s = map (\<lambda>c. if c = old then new else c) s"

definition ascii_lowercase :: string where
  "ascii_lowercase = ''abcdefghijklmnopqrstuvwxyz''"

definition ascii_uppercase :: string where
  "ascii_uppercase = ''ABCDEFGHIJKLMNOPQRSTUVWXYZ''"

definition is_ascii_lower :: "char \<Rightarrow> bool" where
  "is_ascii_lower c = (c \<in> set ascii_lowercase)"

definition is_ascii_upper :: "char \<Rightarrow> bool" where
  "is_ascii_upper c = (c \<in> set ascii_uppercase)"

definition ascii_to_upper :: "char \<Rightarrow> char" where
  "ascii_to_upper c =
     (case map_of (zip ascii_lowercase ascii_uppercase) c of Some u \<Rightarrow> u | None \<Rightarrow> c)"

definition ascii_to_lower :: "char \<Rightarrow> char" where
  "ascii_to_lower c =
     (case map_of (zip ascii_uppercase ascii_lowercase) c of Some l \<Rightarrow> l | None \<Rightarrow> c)"

text \<open>
  \<^verbatim>\<open>str.title()\<close>: a letter that follows a letter is lowered, any other letter is
  raised. The flag says whether the previous character was a letter. The source applies
  it to ASCII text only (a condition description, a period label).
\<close>

fun title_from :: "bool \<Rightarrow> string \<Rightarrow> string" where
  "title_from prev [] = []"
| "title_from prev (c # cs) =
     (if is_ascii_lower c \<or> is_ascii_upper c
      then (if prev then ascii_to_lower c else ascii_to_upper c) # title_from True cs
      else c # title_from False cs)"

definition str_title :: "string \<Rightarrow> string" where
  "str_title s = title_from False s"

definition lower_ascii :: "string \<Rightarrow> string" where
  "lower_ascii s = map ascii_to_lower s"

definition digit_char :: "nat \<Rightarrow> char" where
  "digit_char d = ''0123456789'' ! d"

fun str_nat :: "nat \<Rightarrow> string" where
  "str_nat n = (if n < 10 then [digit_char n] else str_nat (n div 10) @ [digit_char (n mod 10)])"

declare str_nat.simps [simp del]

definition str_int :: "int \<Rightarrow> string" where
  "str_int i = (if i < 0 then CHR ''-'' # str_nat (nat (- i)) else str_nat (nat i))"

text \<open>\<^verbatim>\<open>"%0wd" % n\<close>: zero-padded on the left to at least \<open>w\<close> characters.\<close>

definition zero_pad :: "nat \<Rightarrow> nat \<Rightarrow> string" where
  "zero_pad w n = replicate (w - length (str_nat n)) (CHR ''0'') @ str_nat n"

text \<open>
  The digits of a fraction \<open>0 \<le> x < 1\<close> after the decimal point, without trailing
  zeros, at most \<open>fuel\<close> of them.
\<close>

fun frac_digits :: "nat \<Rightarrow> rat \<Rightarrow> string" where
  "frac_digits 0 x = []"
| "frac_digits (Suc fuel) x =
     (if x = 0 then []
      else digit_char (nat \<lfloor>x * 10\<rfloor>) # frac_digits fuel (x * 10 - of_int \<lfloor>x * 10\<rfloor>))"

text \<open>
  \<^verbatim>\<open>repr\<close> of a float, which is also what f-strings and \<^verbatim>\<open>json.dumps\<close> print: the
  shortest decimal that reads back as the same float, with at least one digit after the
  point. For the results of \<^verbatim>\<open>round(x, n)\<close> at the magnitudes of this program that is
  the decimal with at most \<open>n\<close> fractional digits; exponent notation (below \<open>1e-4\<close> and
  from \<open>1e16\<close> on) does not arise.
\<close>

definition float_repr :: "rat \<Rightarrow> string" where
  "float_repr x =
     (let a = \<bar>x\<bar>; ip = \<lfloor>a\<rfloor>; ds = frac_digits 17 (a - of_int ip)
      in (if x < 0 then ''-'' else []) @ str_nat (nat ip) @ ''.'' @ (if ds = [] then ''0'' else ds))"

text \<open>\<^verbatim>\<open>int(x)\<close> on a float truncates towards zero.\<close>

definition py_int :: "rat \<Rightarrow> int" where
  "py_int x = (if 0 \<le> x then \<lfloor>x\<rfloor> else \<lceil>x\<rceil>)"

subsection \<open>Dates and times\<close>

text \<open>
  A naive \<^verbatim>\<open>datetime\<close>. The library does its arithmetic on the day number
  (\<^verbatim>\<open>toordinal()\<close>, day 1 being 0001-01-01 of the proleptic Gregorian calendar) and
  turns it back into year, month and day; the record keeps the day number and derives
  the calendar date where a string needs it. A clock reading is a date the library can
  represent (\<open>valid_datetime\<close>). The library refuses a sum that passes 9999-12-31
  (\<^verbatim>\<open>OverflowError\<close>); that limit is left out of the model, whose day numbers go on.
\<close>

record datetime =
  ordinal :: nat
  hour :: nat
  minute :: nat
  second :: nat
  microsecond :: nat

definition valid_datetime :: "datetime \<Rightarrow> bool" where
  "valid_datetime t =
     (1 \<le> ordinal t \<and> ordinal t \<le> 3652059 \<and> hour t < 24 \<and> minute t < 60 \<and> second t < 60
      \<and> microsecond t < 1000000)"

definition days_before_month :: "nat list" where
  "days_before_month = [0, 0, 31, 59, 90, 120, 151, 181, 212, 243, 273, 304, 334]"

definition days_in_month :: "nat list" where
  "days_in_month = [0, 31, 28, 31, 30, 31, 30, 31, 31, 30, 31, 30, 31]"

text \<open>
  \<^verbatim>\<open>_ord2ymd\<close> of the library: the day number as (year, month, day), through the
  cycles of 400, 100 and 4 years.
\<close>

definition ord2ymd :: "nat \<Rightarrow> nat \<times> nat \<times> nat" where
  "ord2ymd n0 =
     (let n = n0 - 1;
          n400 = n div 146097; n = n mod 146097;
          n100 = n div 36524; n = n mod 36524;
          n4 = n div 1461; n = n mod 1461;
          n1 = n div 365; n = n mod 365;
          year = n400 * 400 + 1 + n100 * 100 + n4 * 4 + n1
      in if n1 = 4 \<or> n100 = 4 then (year - 1, 12, 31)
         else
           let leapyear = (n1 = 3 \<and> (n4 \<noteq> 24 \<or> n100 = 3));
               month = (n + 50) div 32;
               preceding = days_before_month ! month + (if month > 2 \<and> leapyear then 1 else 0)
           in if preceding > n
              then let month' = month - 1;
                       preceding' = preceding
                         - (days_in_month ! month' + (if month' = 2 \<and> leapyear then 1 else 0))
                   in (year, month', n - preceding' + 1)
              else (year, month, n - preceding + 1))"

text \<open>
  \<^verbatim>\<open>t + timedelta(hours=i)\<close>: the time of day and the hours are added in seconds, whole
  days carry into the day number, and the microseconds stay.
\<close>

definition add_hours :: "datetime \<Rightarrow> nat \<Rightarrow> datetime" where
  "add_hours t i =
     (let secs = hour t * 3600 + minute t * 60 + second t + i * 3600;
          s = secs mod 86400
      in \<lparr>ordinal = ordinal t + secs div 86400, hour = s div 3600,
          minute = (s mod 3600) div 60, second = s mod 60, microsecond = microsecond t\<rparr>)"

text \<open>The instant a \<^typ>\<open>datetime\<close> names, in seconds from the start of day 0.\<close>

definition instant_seconds :: "datetime \<Rightarrow> nat" where
  "instant_seconds t = ordinal t * 86400 + hour t * 3600 + minute t * 60 + second t"

text \<open>
  \<^verbatim>\<open>strftime("%H:%M")\<close> and \<^verbatim>\<open>strftime("%Y-%m-%d")\<close>. The year is written with four
  digits, as \<^verbatim>\<open>isoformat()\<close> writes it; for a year below 1000 the C library of the
  platform decides whether \<^verbatim>\<open>%Y\<close> is padded.
\<close>

definition strftime_HM :: "datetime \<Rightarrow> string" where
  "strftime_HM t = zero_pad 2 (hour t) @ '':'' @ zero_pad 2 (minute t)"

definition strftime_Ymd :: "datetime \<Rightarrow> string" where
  "strftime_Ymd t =
     (case ord2ymd (ordinal t) of
        (y, m, d) \<Rightarrow> zero_pad 4 y @ ''-'' @ zero_pad 2 m @ ''-'' @ zero_pad 2 d)"

text \<open>
  \<^verbatim>\<open>isoformat()\<close>: date, \<^verbatim>\<open>T\<close>, time, and the six digits of the microseconds unless
  they are zero.
\<close>

definition isoformat :: "datetime \<Rightarrow> string" where
  "isoformat t =
     strftime_Ymd t @ ''T'' @ zero_pad 2 (hour t) @ '':'' @ zero_pad 2 (minute t) @ '':''
       @ zero_pad 2 (second t)
       @ (if microsecond t = 0 then [] else ''.'' @ zero_pad 6 (microsecond t))"

text \<open>
  The wall clock: \<open>clock k\<close> is what the \<open>k\<close>-th call of \<^verbatim>\<open>datetime.now()\<close> made while
  serving one request returns. The source reads the clock several times per request.
\<close>

type_synonym clock = "nat \<Rightarrow> datetime"

text \<open>
  \<^verbatim>\<open>int(t.timestamp())\<close> of a naive local time depends on the time zone rules of the
  platform, which are a parameter: \<open>epoch_seconds t\<close> is the POSIX time of the local
  time \<open>t\<close> cut to whole seconds, to which the library adds the microseconds.
\<close>

definition int_timestamp :: "(datetime \<Rightarrow> int) \<Rightarrow> datetime \<Rightarrow> int" where
  "int_timestamp epoch_seconds t =
     py_int (of_int (epoch_seconds t) + of_nat (microsecond t) / 1000000)"

subsection \<open>The random source\<close>

text \<open>
  \<open>rng k\<close> is the raw outcome of the \<open>k\<close>-th draw of one request.
  \<^verbatim>\<open>random.random()\<close> returns a multiple of \<open>2 ^ -53\<close> in \<open>[0, 1)\<close>;
  \<^verbatim>\<open>uniform(a, b)\<close> is \<^verbatim>\<open>a + (b - a) * random()\<close>; \<^verbatim>\<open>randint(a, b)\<close> is
  \<open>a\<close> plus a number below \<open>b - a + 1\<close>; \<^verbatim>\<open>choice(seq)\<close> indexes \<open>seq\<close> with a
  number below its length.
\<close>

type_synonym rng = "nat \<Rightarrow> nat"

definition random_random :: "nat \<Rightarrow> rat" where
  "random_random raw = of_nat (raw mod 2 ^ 53) / 2 ^ 53"

definition random_uniform :: "rat \<Rightarrow> rat \<Rightarrow> nat \<Rightarrow> rat" where
  "random_uniform a b raw = a + (b - a) * random_random raw"

definition randbelow :: "nat \<Rightarrow> nat \<Rightarrow> nat" where
  "randbelow n raw = raw mod n"

definition random_randint :: "int \<Rightarrow> int \<Rightarrow> nat \<Rightarrow> int" where
  "random_randint a b raw = a + int (randbelow (nat (b - a + 1)) raw)"

definition random_choice :: "'a list \<Rightarrow> nat \<Rightarrow> 'a" where
  "random_choice seq raw = seq ! randbelow (length seq) raw"

subsection \<open>JSON\<close>

text \<open>
  The values the source hands to \<^verbatim>\<open>json.dumps\<close>; a dict keeps the order in which its
  keys were written.
\<close>

datatype json =
  JString string
| JInt int
| JFloat rat
| JArray "json list"
| JObject "(string \<times> json) list"

definition hex_digit :: "nat \<Rightarrow> char" where
  "hex_digit d = ''0123456789abcdef'' ! d"

definition backslash :: char where
  "backslash = CHR 0x5C"

definition dquote :: char where
  "dquote = CHR 0x22"

definition newline :: char where
  "newline = CHR 0x0A"

definition u_escape :: "nat \<Rightarrow> string" where
  "u_escape n =
     [backslash, CHR ''u'', hex_digit (n div 4096 mod 16), hex_digit (n div 256 mod 16),
      hex_digit (n div 16 mod 16), hex_digit (n mod 16)]"

text \<open>A code point as \<^verbatim>\<open>\uXXXX\<close>, beyond the basic plane as a surrogate pair.\<close>

definition escape_codepoint :: "nat \<Rightarrow> string" where
  "escape_codepoint n =
     (if n < 65536 then u_escape n
      else u_escape (55296 + (n - 65536) div 1024 mod 1024) @ u_escape (56320 + (n - 65536) mod 1024))"

definition continuation_bits :: "char \<Rightarrow> nat" where
  "continuation_bits c = (of_char c :: nat) mod 64"

text \<open>
  The escaping of \<^verbatim>\<open>json.dumps\<close> with its default \<^verbatim>\<open>ensure_ascii=True\<close>: quote and
  backslash get a backslash, the usual control characters their short form, every other
  character outside \<open>' '..'~'\<close> its code point, read from the UTF-8 bytes of the model.
\<close>

fun json_escape :: "string \<Rightarrow> string" where
  "json_escape [] = []"
| "json_escape (c # cs) =
     (let n = (of_char c :: nat)
      in if c = dquote then [backslash, dquote] @ json_escape cs
         else if c = backslash then [backslash, backslash] @ json_escape cs
         else if n = 10 then [backslash, CHR ''n''] @ json_escape cs
         else if n = 13 then [backslash, CHR ''r''] @ json_escape cs
         else if n = 9 then [backslash, CHR ''t''] @ json_escape cs
         else if n = 8 then [backslash, CHR ''b''] @ json_escape cs
         else if n = 12 then [backslash, CHR ''f''] @ json_escape cs
         else if 32 \<le> n \<and> n \<le> 126 then c # json_escape cs
         else if n < 128 then u_escape n @ json_escape cs
         else if n < 224 then
           (case cs of
              b # r \<Rightarrow> escape_codepoint (n mod 32 * 64 + continuation_bits b) @ json_escape r
            | [] \<Rightarrow> [])
         else if n < 240 then
           (case cs of
              b1 # b2 # r \<Rightarrow>
                escape_codepoint (n mod 16 * 4096 + continuation_bits b1 * 64 + continuation_bits b2)
                  @ json_escape r
            | _ \<Rightarrow> [])
         else
           (case cs of
              b1 # b2 # b3 # r \<Rightarrow>
                escape_codepoint (n mod 8 * 262144 + continuation_bits b1 * 4096
                    + continuation_bits b2 * 64 + continuation_bits b3)
                  @ json_escape r
            | _ \<Rightarrow> []))"

definition json_string :: "string \<Rightarrow> string" where
  "json_string s = [dquote] @ json_escape s @ [dquote]"

fun str_join :: "string \<Rightarrow> string list \<Rightarrow> string" where
  "str_join sep [] = []"
| "str_join sep [x] = x"
| "str_join sep (x # y # ys) = x @ sep @ str_join sep (y # ys)"

text \<open>
  The encoder of \<^verbatim>\<open>json.dumps(obj, indent=ind)\<close>. With an indent every item starts on
  a line of its own, \<open>ind\<close> spaces deeper per level, and items are separated by a comma;
  without one (\<open>None\<close>) all is on one line and items are separated by comma and space.
  An empty list is \<^verbatim>\<open>[]\<close> and an empty dict \<^verbatim>\<open>{}\<close> either way.
\<close>

definition newline_indent :: "nat option \<Rightarrow> nat \<Rightarrow> string" where
  "newline_indent ind level =
     (case ind of None \<Rightarrow> [] | Some k \<Rightarrow> newline # replicate (k * level) (CHR '' ''))"

definition item_separator :: "nat option \<Rightarrow> string" where
  "item_separator ind = (case ind of None \<Rightarrow> '', '' | Some k \<Rightarrow> '','')"

fun json_encode :: "nat option \<Rightarrow> nat \<Rightarrow> json \<Rightarrow> string" where
  "json_encode ind level (JString s) = json_string s"
| "json_encode ind level (JInt i) = str_int i"
| "json_encode ind level (JFloat x) = float_repr x"
| "json_encode ind level (JArray xs) =
     (if xs = [] then ''[]''
      else ''['' @ newline_indent ind (Suc level)
        @ str_join (item_separator ind @ newline_indent ind (Suc level))
            (map (json_encode ind (Suc level)) xs)
        @ newline_indent ind level @ '']'')"
| "json_encode ind level (JObject kvs) =
     (if kvs = [] then ''{}''
      else ''{'' @ newline_indent ind (Suc level)
        @ str_join (item_separator ind @ newline_indent ind (Suc level))
            (map (\<lambda>kv. json_string (fst kv) @ '': '' @ json_encode ind (Suc level) (snd kv)) kvs)
        @ newline_indent ind level @ ''}'')"

definition json_dumps :: "nat option \<Rightarrow> json \<Rightarrow> string" where
  "json_dumps ind obj = json_encode ind 0 obj"

subsection \<open>Tool inputs\<close>

text \<open>
  \<^verbatim>\<open>WeatherRequest\<close> and \<^verbatim>\<open>EnergyRequest\<close> are pydantic models: their fields carry
  a default, and pydantic builds the model from the payload of the call. A payload is a
  dict from field names to values; the values here are the strings, booleans and
  \<^verbatim>\<open>null\<close> of JSON. A field that is absent takes its default; a field that is present
  is checked against the field's type: a \<^verbatim>\<open>str\<close> field accepts a string, as it is,
  and nothing else; a \<^verbatim>\<open>bool\<close> field accepts a boolean and the strings pydantic reads
  as one. A value that fails the check makes the call fail with a validation error
  before the tool's body runs.
\<close>

datatype payload_value = PStr string | PBool bool | PNull

type_synonym payload = "string \<rightharpoonup> payload_value"

datatype error = ValidationError string

record WeatherRequest =
  location :: string

record EnergyRequest =
  region :: string
  include_forecast :: bool

definition validate_str :: "string \<Rightarrow> string \<Rightarrow> payload \<Rightarrow> error + string" where
  "validate_str field dflt p =
     (case p field of
        None \<Rightarrow> Inr dflt
      | Some (PStr s) \<Rightarrow> Inr s
      | Some v \<Rightarrow> Inl (ValidationError field))"

definition bool_true_strings :: "string list" where
  "bool_true_strings = [''1'', ''on'', ''t'', ''true'', ''y'', ''yes'']"

definition bool_false_strings :: "string list" where
  "bool_false_strings = [''0'', ''off'', ''f'', ''false'', ''n'', ''no'']"

definition validate_bool :: "string \<Rightarrow> bool \<Rightarrow> payload \<Rightarrow> error + bool" where
  "validate_bool field dflt p =
     (case p field of
        None \<Rightarrow> Inr dflt
      | Some (PBool b) \<Rightarrow> Inr b
      | Some (PStr s) \<Rightarrow>
          (if lower_ascii s \<in> set bool_true_strings then Inr True
           else if lower_ascii s \<in> set bool_false_strings then Inr False
           else Inl (ValidationError field))
      | Some PNull \<Rightarrow> Inl (ValidationError field))"

definition WeatherRequest_validate :: "payload \<Rightarrow> error + WeatherRequest" where
  "WeatherRequest_validate p =
     (case validate_str ''location'' ''London'' p of
        Inl e \<Rightarrow> Inl e
      | Inr loc \<Rightarrow> Inr \<lparr>location = loc\<rparr>)"

definition EnergyRequest_validate :: "payload \<Rightarrow> error + EnergyRequest" where
  "EnergyRequest_validate p =
     (case validate_str ''region'' ''EU'' p of
        Inl e \<Rightarrow> Inl e
      | Inr r \<Rightarrow>
          (case validate_bool ''include_forecast'' True p of
             Inl e \<Rightarrow> Inl e
           | Inr f \<Rightarrow> Inr \<lparr>region = r, include_forecast = f\<rparr>))"

subsection \<open>The weather generator\<close>

text \<open>
  The dict that \<^verbatim>\<open>get_mock_weather_data\<close> returns, as a record with one field per leaf;
  \<open>weather_json\<close> lays the leaves out as the dict literal of the source does.
\<close>

record weather_data =
  w_name :: string
  w_temp :: rat
  w_feels_like :: rat
  w_humidity :: int
  w_pressure :: int
  w_main :: string
  w_description :: string
  w_icon :: string
  w_wind_speed :: rat
  w_dt :: int
  w_sunrise :: int
  w_sunset :: int

definition conditions :: "string list" where
  "conditions = [''clear sky'', ''few clouds'', ''scattered clouds'', ''light rain'']"

text \<open>
  The draws and the clock readings are numbered in the order in which the dict literal
  evaluates them.
\<close>

definition get_mock_weather_data ::
    "(datetime \<Rightarrow> int) \<Rightarrow> clock \<Rightarrow> rng \<Rightarrow> string \<Rightarrow> weather_data" where
  "get_mock_weather_data epoch_seconds now rnd loc =
     \<lparr>w_name = loc,
      w_temp = py_round (random_uniform 15 25 (rnd 0)) 1,
      w_feels_like = py_round (random_uniform 14 26 (rnd 1)) 1,
      w_humidity = random_randint 40 80 (rnd 2),
      w_pressure = random_randint 1000 1020 (rnd 3),
      w_main = random_choice [''Clear'', ''Clouds'', ''Rain''] (rnd 4),
      w_description = random_choice conditions (rnd 5),
      w_icon = ''01d'',
      w_wind_speed = py_round (random_uniform 1 10 (rnd 6)) 1,
      w_dt = int_timestamp epoch_seconds (now 0),
      w_sunrise = int_timestamp epoch_seconds ((now 1)\<lparr>hour := 6, minute := 30\<rparr>),
      w_sunset = int_timestamp epoch_seconds ((now 2)\<lparr>hour := 19, minute := 45\<rparr>)\<rparr>"

definition weather_json :: "weather_data \<Rightarrow> json" where
  "weather_json w =
     JObject
      [(''name'', JString (w_name w)),
       (''main'', JObject
          [(''temp'', JFloat (w_temp w)),
           (''feels_like'', JFloat (w_feels_like w)),
           (''humidity'', JInt (w_humidity w)),
           (''pressure'', JInt (w_pressure w))]),
       (''weather'', JArray
          [JObject
            [(''main'', JString (w_main w)),
             (''description'', JString (w_description w)),
             (''icon'', JString (w_icon w))]]),
       (''wind'', JObject [(''speed'', JFloat (w_wind_speed w))]),
       (''dt'', JInt (w_dt w)),
       (''sys'', JObject
          [(''sunrise'', JInt (w_sunrise w)),
           (''sunset'', JInt (w_sunset w))])]"

subsection \<open>The weather report\<close>

text \<open>The symbols of the report templates that are not ASCII, as their UTF-8 bytes.\<close>

definition glyph_weather :: string where
  "glyph_weather = [CHR 0xF0, CHR 0x9F, CHR 0x8C, CHR 0xA4, CHR 0xEF, CHR 0xB8, CHR 0x8F]"

definition glyph_chart :: string where
  "glyph_chart = [CHR 0xF0, CHR 0x9F, CHR 0x93, CHR 0x8A]"

definition glyph_house :: string where
  "glyph_house = [CHR 0xF0, CHR 0x9F, CHR 0x8F, CHR 0xA0]"

definition glyph_phone :: string where
  "glyph_phone = [CHR 0xF0, CHR 0x9F, CHR 0x93, CHR 0xB1]"

definition glyph_bolt :: string where
  "glyph_bolt = [CHR 0xE2, CHR 0x9A, CHR 0xA1]"

definition glyph_money :: string where
  "glyph_money = [CHR 0xF0, CHR 0x9F, CHR 0x92, CHR 0xB0]"

definition glyph_trend :: string where
  "glyph_trend = [CHR 0xF0, CHR 0x9F, CHR 0x93, CHR 0x88]"

definition bullet :: string where
  "bullet = [CHR 0xE2, CHR 0x80, CHR 0xA2]"

definition degree :: string where
  "degree = [CHR 0xC2, CHR 0xB0]"

definition euro :: string where
  "euro = [CHR 0xE2, CHR 0x82, CHR 0xAC]"

definition nl :: string where
  "nl = [newline]"

text \<open>The three conditional expressions of the impact section (lines 150-152).\<close>

definition heating_recommendation :: "rat \<Rightarrow> string" where
  "heating_recommendation temp =
     (if temp < 18 then ''Increase'' else if temp < 22 then ''Maintain'' else ''Decrease'')"

definition natural_lighting :: "string \<Rightarrow> string" where
  "natural_lighting description =
     (if str_contains ''cloud'' description \<or> str_contains ''rain'' description
      then ''Low - consider increasing indoor lighting'' else ''Good'')"

definition window_management :: "string \<Rightarrow> string" where
  "window_management description =
     (if str_contains ''rain'' description then ''Close windows'' else ''Consider ventilation'')"

definition format_weather :: "weather_data \<Rightarrow> string" where
  "format_weather w =
     glyph_weather @ '' Weather Data for '' @ w_name w @ '':'' @ nl
     @ ''        '' @ nl
     @ glyph_chart @ '' Current Conditions:'' @ nl
     @ bullet @ '' Temperature: '' @ float_repr (w_temp w) @ degree @ ''C'' @ nl
     @ bullet @ '' Description: '' @ str_title (w_description w) @ nl
     @ bullet @ '' Humidity: '' @ str_int (w_humidity w) @ ''%'' @ nl
     @ bullet @ '' Wind Speed: '' @ float_repr (w_wind_speed w) @ '' m/s'' @ nl
     @ bullet @ '' Pressure: '' @ str_int (w_pressure w) @ '' hPa'' @ nl
     @ nl
     @ glyph_house @ '' HomeGenie Impact:'' @ nl
     @ bullet @ '' Heating recommendation: '' @ heating_recommendation (w_temp w) @ nl
     @ bullet @ '' Natural lighting: '' @ natural_lighting (w_description w) @ nl
     @ bullet @ '' Window management: '' @ window_management (w_description w) @ nl
     @ nl
     @ glyph_phone @ '' Raw Data: '' @ json_dumps (Some 2) (weather_json w)"

text \<open>
  The tool: the source builds the report inside \<^verbatim>\<open>get_weather_data\<close>;
  \<open>format_weather\<close> is that f-string.
\<close>

definition get_weather_data ::
    "(datetime \<Rightarrow> int) \<Rightarrow> clock \<Rightarrow> rng \<Rightarrow> WeatherRequest \<Rightarrow> string" where
  "get_weather_data epoch_seconds now rnd request =
     format_weather (get_mock_weather_data epoch_seconds now rnd (location request))"

subsection \<open>The energy price generator\<close>

record forecast_point =
  fp_time :: string
  fp_date :: string
  fp_price_per_kwh :: rat
  fp_period :: string

record current_price =
  cp_price_per_kwh :: rat
  cp_currency :: string
  cp_period :: string
  cp_unit :: string

record market_info =
  mi_market :: string
  mi_source :: string
  mi_last_updated :: string

record price_data =
  pd_region :: string
  pd_timestamp :: string
  pd_current_price :: current_price
  pd_price_forecast :: "forecast_point list"
  pd_market_info :: market_info

text \<open>The body of the forecast loop (lines 85-103): the entry for \<open>i\<close> hours from \<open>base_time\<close>.\<close>

definition forecast_entry :: "datetime \<Rightarrow> nat \<Rightarrow> forecast_point" where
  "forecast_entry base_time i =
     (let time = add_hours base_time i;
          f_hour = hour time;
          (f_multiplier, f_period) = pricing_tier f_hour
      in \<lparr>fp_time = strftime_HM time,
          fp_date = strftime_Ymd time,
          fp_price_per_kwh = py_round (base_price * f_multiplier) 3,
          fp_period = f_period\<rparr>)"

text \<open>\<^verbatim>\<open>for i in range(24): forecast.append(...)\<close>, from the empty list.\<close>

definition build_forecast :: "datetime \<Rightarrow> forecast_point list" where
  "build_forecast base_time =
     foldl (\<lambda>forecast i. forecast @ [forecast_entry base_time i]) [] [0..<24]"

text \<open>
  The clock is read four times, in this order: for \<^verbatim>\<open>hour\<close> (line 64), for
  \<^verbatim>\<open>base_time\<close> (line 82), for \<^verbatim>\<open>timestamp\<close> (line 107) and for
  \<^verbatim>\<open>last_updated\<close> (line 118).
\<close>

definition get_mock_energy_prices :: "clock \<Rightarrow> string \<Rightarrow> price_data" where
  "get_mock_energy_prices now reg =
     (let (multiplier, period) = pricing_tier (hour (now 0));
          price = py_round (base_price * multiplier) 3;
          forecast = build_forecast (now 1)
      in \<lparr>pd_region = reg,
          pd_timestamp = isoformat (now 2),
          pd_current_price =
            \<lparr>cp_price_per_kwh = price, cp_currency = ''EUR'', cp_period = period,
             cp_unit = ''kWh''\<rparr>,
          pd_price_forecast = forecast,
          pd_market_info =
            \<lparr>mi_market = ''Day Ahead'', mi_source = ''Energy Exchange'',
             mi_last_updated = isoformat (now 3)\<rparr>\<rparr>)"

definition forecast_point_json :: "forecast_point \<Rightarrow> json" where
  "forecast_point_json p =
     JObject
      [(''time'', JString (fp_time p)),
       (''date'', JString (fp_date p)),
       (''price_per_kwh'', JFloat (fp_price_per_kwh p)),
       (''period'', JString (fp_period p))]"

definition price_json :: "price_data \<Rightarrow> json" where
  "price_json d =
     JObject
      [(''region'', JString (pd_region d)),
       (''timestamp'', JString (pd_timestamp d)),
       (''current_price'', JObject
          [(''price_per_kwh'', JFloat (cp_price_per_kwh (pd_current_price d))),
           (''currency'', JString (cp_currency (pd_current_price d))),
           (''period'', JString (cp_period (pd_current_price d))),
           (''unit'', JString (cp_unit (pd_current_price d)))]),
       (''price_forecast'', JArray (map forecast_point_json (pd_price_forecast d))),
       (''market_info'', JObject
          [(''market'', JString (mi_market (pd_market_info d))),
           (''source'', JString (mi_source (pd_market_info d))),
           (''last_updated'', JString (mi_last_updated (pd_market_info d)))])]"

subsection \<open>The energy report\<close>

text \<open>The two conditional expressions of the recommendations (lines 180-181).\<close>

definition cost_impact :: "rat \<Rightarrow> string" where
  "cost_impact price =
     (if price > 35 / 100 then ''High cost - consider energy saving''
      else if price > 20 / 100 then ''Standard cost''
      else ''Low cost - good time for energy-intensive tasks'')"

definition smart_actions :: "string \<Rightarrow> string" where
  "smart_actions period =
     (if period = ''peak'' then ''Delay washing/heating''
      else if period = ''off_peak'' then ''Good time for appliances''
      else ''Normal usage'')"

definition period_title :: "string \<Rightarrow> string" where
  "period_title period = str_title (str_replace_char (CHR ''_'') (CHR '' '') period)"

text \<open>The f-string of lines 170-181, up to the recommendations.\<close>

definition energy_summary :: "string \<Rightarrow> price_data \<Rightarrow> string" where
  "energy_summary reg d =
     (let current = pd_current_price d
      in glyph_bolt @ '' Energy Prices for '' @ reg @ '':'' @ nl
         @ ''        '' @ nl
         @ glyph_money @ '' Current Price:'' @ nl
         @ bullet @ '' Price: '' @ euro @ float_repr (cp_price_per_kwh current) @ ''/kWh'' @ nl
         @ bullet @ '' Period: '' @ period_title (cp_period current) @ nl
         @ bullet @ '' Currency: '' @ cp_currency current @ nl
         @ bullet @ '' Last Updated: '' @ take 19 (pd_timestamp d) @ nl
         @ nl
         @ glyph_house @ '' HomeGenie Recommendations:'' @ nl
         @ bullet @ '' Period Type: '' @ period_title (cp_period current) @ nl
         @ bullet @ '' Cost Impact: '' @ cost_impact (cp_price_per_kwh current) @ nl
         @ bullet @ '' Smart Actions: '' @ smart_actions (cp_period current))"

text \<open>One line of the forecast section (line 187).\<close>

definition forecast_line :: "forecast_point \<Rightarrow> string" where
  "forecast_line hour_data =
     bullet @ '' '' @ fp_time hour_data @ '': '' @ euro @ float_repr (fp_price_per_kwh hour_data)
       @ ''/kWh ('' @ fp_period hour_data @ '')'' @ nl"

definition forecast_heading :: string where
  "forecast_heading = nl @ nl @ glyph_trend @ '' Next 8 Hours Forecast:'' @ nl"

definition raw_data_heading :: string where
  "raw_data_heading = nl @ nl @ glyph_phone @ '' Raw Data: ''"

text \<open>
  Lines 183-191 on a report in hand: the forecast section, if asked for, is appended
  line by line to the summary, and the raw data after it.
\<close>

definition format_energy :: "string \<Rightarrow> price_data \<Rightarrow> bool \<Rightarrow> string" where
  "format_energy reg d with_forecast =
     (let result = energy_summary reg d;
          result =
            (if with_forecast
             then foldl (\<lambda>result hour_data. result @ forecast_line hour_data)
                    (result @ forecast_heading) (take 8 (pd_price_forecast d))
             else result)
      in result @ raw_data_heading @ json_dumps (Some 2) (price_json d))"

definition get_energy_prices :: "clock \<Rightarrow> EnergyRequest \<Rightarrow> string" where
  "get_energy_prices now request =
     format_energy (region request) (get_mock_energy_prices now (region request))
       (include_forecast request)"

subsection \<open>The health check\<close>

definition health_payload :: "clock \<Rightarrow> json" where
  "health_payload now =
     JObject
      [(''status'', JString ''healthy''),
       (''timestamp'', JString (isoformat (now 0))),
       (''service'', JString ''HomeGenie MCP Server''),
       (''version'', JString ''1.0.0'')]"

definition health_check :: "clock \<Rightarrow> string" where
  "health_check now = json_dumps None (health_payload now)"

subsection \<open>Calls from the transport\<close>

text \<open>
  A tool call carries a payload; the request model is built from it first, and the body
  of the tool runs only on a request that passed.
\<close>

definition call_get_weather_data ::
    "(datetime \<Rightarrow> int) \<Rightarrow> clock \<Rightarrow> rng \<Rightarrow> payload \<Rightarrow> error + string" where
  "call_get_weather_data epoch_seconds now rnd p =
     (case WeatherRequest_validate p of
        Inl e \<Rightarrow> Inl e
      | Inr request \<Rightarrow> Inr (get_weather_data epoch_seconds now rnd request))"

definition call_get_energy_prices :: "clock \<Rightarrow> payload \<Rightarrow> error + string" where
  "call_get_energy_prices now p =
     (case EnergyRequest_validate p of
        Inl e \<Rightarrow> Inl e
      | Inr request \<Rightarrow> Inr (get_energy_prices now request))"

subsection \<open>The recommendation rules as the specification words them\<close>

text \<open>
  The specification gives the lighting rule as: if the condition description contains
  "cloud" or "rain" (case-insensitive substring) then "Low, increase indoor lighting",
  else "Good"; and the cost impact as: price above 0.35 gives "High cost", above 0.20
  "Standard cost", else "Low cost, good time for energy-intensive tasks". These two
  definitions follow those words, for comparison with \<open>natural_lighting\<close> and
  \<open>cost_impact\<close> of the source.
\<close>

definition spec_lighting :: "string \<Rightarrow> string" where
  "spec_lighting description =
     (if str_contains ''cloud'' (lower_ascii description)
         \<or> str_contains ''rain'' (lower_ascii description)
      then ''Low, increase indoor lighting'' else ''Good'')"

definition spec_cost_impact :: "rat \<Rightarrow> string" where
  "spec_cost_impact price =
     (if price > 35 / 100 then ''High cost''
      else if price > 20 / 100 then ''Standard cost''
      else ''Low cost, good time for energy-intensive tasks'')"

subsection \<open>Well-formed timestamps\<close>

text \<open>
  The shape of an ISO-8601 date and time: \<^verbatim>\<open>YYYY-MM-DDTHH:MM:SS\<close>, with or without
  a fraction of six digits. In a pattern \<^verbatim>\<open>d\<close> stands for a decimal digit and every
  other character for itself.
\<close>

definition is_digit :: "char \<Rightarrow> bool" where
  "is_digit c = (c \<in> set ''0123456789'')"

fun matches_pattern :: "string \<Rightarrow> string \<Rightarrow> bool" where
  "matches_pattern [] [] = True"
| "matches_pattern (p # ps) (c # cs) =
     ((if p = CHR ''d'' then is_digit c else c = p) \<and> matches_pattern ps cs)"
| "matches_pattern ps cs = False"

text \<open>The characters such a timestamp is written with.\<close>

definition iso_char :: "char \<Rightarrow> bool" where
  "iso_char c = (c \<in> set ''0123456789-T:.'')"

definition is_iso8601 :: "string \<Rightarrow> bool" where
  "is_iso8601 s =
     (matches_pattern ''dddd-dd-ddTdd:dd:dd'' s \<or> matches_pattern ''dddd-dd-ddTdd:dd:dd.dddddd'' s)"

subsection \<open>Sample inputs\<close>

text \<open>
  A clock that gives the same reading throughout a call, three moments of 2024-02-29
  (day 738945), a payload written as a list of fields, and a weather reading, used as
  examples.
\<close>

definition payload_of :: "(string \<times> payload_value) list \<Rightarrow> payload" where
  "payload_of kvs = map_of kvs"

definition sample_reading :: weather_data where
  "sample_reading =
     \<lparr>w_name = ''London'', w_temp = 16, w_feels_like = 15, w_humidity = 55, w_pressure = 1010,
      w_main = ''Clouds'', w_description = ''few clouds'', w_icon = ''01d'', w_wind_speed = 3,
      w_dt = 1709193600, w_sunrise = 1709188200, w_sunset = 1709235900\<rparr>"

definition constant_clock :: "datetime \<Rightarrow> clock" where
  "constant_clock t k = t"

definition at_0800 :: datetime where
  "at_0800 = \<lparr>ordinal = 738945, hour = 8, minute = 0, second = 0, microsecond = 0\<rparr>"

definition at_1200 :: datetime where
  "at_1200 = \<lparr>ordinal = 738945, hour = 12, minute = 0, second = 0, microsecond = 0\<rparr>"

definition at_2300 :: datetime where
  "at_2300 = \<lparr>ordinal = 738945, hour = 23, minute = 0, second = 0, microsecond = 0\<rparr>"

section \<open>Properties\<close>

subsection \<open>Pricing tiers\<close>

lemma hour_cases:
  "h \<le> 23 \<Longrightarrow> h = 0 \<or> h = 1 \<or> h = 2 \<or> h = 3 \<or> h = 4 \<or> h = 5 \<or> h = 6 \<or> h = 7 \<or> h = 8
     \<or> h = 9 \<or> h = 10 \<or> h = 11 \<or> h = 12 \<or> h = 13 \<or> h = 14 \<or> h = 15 \<or> h = 16 \<or> h = 17
     \<or> h = 18 \<or> h = 19 \<or> h = 20 \<or> h = 21 \<or> h = 22 \<or> h = (23::nat)"
proof -
  assume "h \<le> 23"
  then have "h \<in> set [0..<24]" by simp
  also have "[0..<24] = [0, 1, 2, 3, 4, 5, 6, 7, 8, 9, 10, 11, 12, 13, 14, 15, 16, 17, 18, 19,
      20, 21, 22, 23::nat]"
    by code_simp
  finally show ?thesis by simp
qed

text \<open>
  C1. For every hour of the day \<open>h\<close> in \<open>[0, 23]\<close> the tier function of the source
  agrees with the table of the specification read in table order: the label is one of
  peak, off-peak and standard; it is peak (multiplier 1.8) exactly on hours 7-9 and 17-20,
  off-peak (multiplier 0.7) exactly on hours 22-23 and 0-6, and standard (multiplier 1.0)
  exactly on the other hours; the three sets of hours are pairwise disjoint and cover
  all 24 hours.
\<close>

theorem tier_matches_table:
  assumes "h \<le> 23"
  shows "pricing_tier h = spec_tier h
     \<and> tier_label h \<in> {''peak'', ''off_peak'', ''standard''}
     \<and> (tier_label h = ''peak'' \<longleftrightarrow> h \<in> spec_peak_hours)
     \<and> (tier_label h = ''off_peak'' \<longleftrightarrow> h \<in> spec_off_peak_hours)
     \<and> (tier_label h = ''standard'' \<longleftrightarrow> h \<in> spec_standard_hours)
     \<and> (h \<in> spec_peak_hours \<longrightarrow>
          tier_multiplier h = 18 / 10 \<and> h \<notin> spec_off_peak_hours \<and> h \<notin> spec_standard_hours)
     \<and> (h \<in> spec_off_peak_hours \<longrightarrow>
          tier_multiplier h = 7 / 10 \<and> h \<notin> spec_peak_hours \<and> h \<notin> spec_standard_hours)
     \<and> (h \<in> spec_standard_hours \<longrightarrow>
          tier_multiplier h = 1 \<and> h \<notin> spec_peak_hours \<and> h \<notin> spec_off_peak_hours)
     \<and> (h \<in> spec_peak_hours \<or> h \<in> spec_off_peak_hours \<or> h \<in> spec_standard_hours)"
  using hour_cases [OF assms]
  unfolding pricing_tier_def spec_tier_def tier_label_def tier_multiplier_def
    spec_peak_hours_def spec_off_peak_hours_def spec_standard_hours_def
  by (elim disjE; simp)

theorem tier_matches_table_witness:
  "pricing_tier 8 = spec_tier 8 \<and> tier_label 8 = ''peak'' \<and> 8 \<in> spec_peak_hours
     \<and> tier_multiplier 8 = 18 / 10 \<and> 8 \<notin> spec_off_peak_hours \<and> 8 \<notin> spec_standard_hours"
proof -
  have le: "(8::nat) \<le> 23" by simp
  have m: "(8::nat) \<in> spec_peak_hours" by (simp add: spec_peak_hours_def)
  from tier_matches_table [OF le] m show ?thesis by blast
qed

subsection \<open>The current price\<close>

lemma current_price_eq:
  "cp_price_per_kwh (pd_current_price (get_mock_energy_prices now reg))
     = py_round (base_price * tier_multiplier (hour (now 0))) 3"
  by (simp add: get_mock_energy_prices_def tier_multiplier_def Let_def split: prod.split)

lemma price_peak: "py_round (base_price * (18 / 10)) 3 = 45 / 100"
  by (simp add: py_round_def round_half_even_def base_price_def)

lemma price_off_peak: "py_round (base_price * (7 / 10)) 3 = 175 / 1000"
  by (simp add: py_round_def round_half_even_def base_price_def)

lemma price_standard: "py_round (base_price * 1) 3 = 25 / 100"
  by (simp add: py_round_def round_half_even_def base_price_def)

text \<open>
  C2. For every call of the energy price generator the current price per kWh is
  \<open>round(0.25 * tier_multiplier(hour), 3)\<close>, the hour being that of the first clock
  reading of the call; it is 0.45 when that hour is 8, 0.175 when it is 23 and 0.25 when
  it is 12.
\<close>

theorem current_price_is_rounded_tier_price:
  "cp_price_per_kwh (pd_current_price (get_mock_energy_prices now reg))
     = py_round (25 / 100 * tier_multiplier (hour (now 0))) 3
   \<and> (hour (now 0) = 8 \<longrightarrow>
        cp_price_per_kwh (pd_current_price (get_mock_energy_prices now reg)) = 45 / 100)
   \<and> (hour (now 0) = 23 \<longrightarrow>
        cp_price_per_kwh (pd_current_price (get_mock_energy_prices now reg)) = 175 / 1000)
   \<and> (hour (now 0) = 12 \<longrightarrow>
        cp_price_per_kwh (pd_current_price (get_mock_energy_prices now reg)) = 25 / 100)"
proof -
  have m8: "tier_multiplier 8 = 18 / 10" and m23: "tier_multiplier 23 = 7 / 10"
    and m12: "tier_multiplier 12 = 1"
    by (simp_all add: tier_multiplier_def pricing_tier_def)
  show ?thesis
    using price_peak price_off_peak price_standard
    by (simp add: current_price_eq m8 m23 m12 base_price_def)
qed

theorem current_price_is_rounded_tier_price_witness:
  "cp_price_per_kwh (pd_current_price (get_mock_energy_prices (constant_clock at_0800) ''EU''))
     = 45 / 100
   \<and> cp_price_per_kwh (pd_current_price (get_mock_energy_prices (constant_clock at_2300) ''EU''))
     = 175 / 1000
   \<and> cp_price_per_kwh (pd_current_price (get_mock_energy_prices (constant_clock at_1200) ''EU''))
     = 25 / 100"
proof -
  have h: "hour (constant_clock at_0800 0) = 8" "hour (constant_clock at_2300 0) = 23"
    "hour (constant_clock at_1200 0) = 12"
    by (simp_all add: constant_clock_def at_0800_def at_2300_def at_1200_def)
  from h current_price_is_rounded_tier_price [of "constant_clock at_0800" "''EU''"]
    current_price_is_rounded_tier_price [of "constant_clock at_2300" "''EU''"]
    current_price_is_rounded_tier_price [of "constant_clock at_1200" "''EU''"]
  show ?thesis by blast
qed

subsection \<open>The forecast\<close>

lemma foldl_append_single:
  "foldl (\<lambda>acc i. acc @ [f i]) acc xs = acc @ map f xs"
  by (induction xs arbitrary: acc) simp_all

lemma build_forecast_map: "build_forecast t = map (forecast_entry t) [0..<24]"
  by (simp only: build_forecast_def foldl_append_single append_Nil)

lemma time_of_day_recombine:
  fixes s :: nat
  shows "s div 3600 * 3600 + s mod 3600 div 60 * 60 + s mod 60 = s"
proof -
  have "(60::nat) dvd 3600" by simp
  then have "s mod 3600 mod 60 = s mod 60" by (rule mod_mod_cancel)
  then have "s mod 3600 div 60 * 60 + s mod 60 = s mod 3600"
    using div_mult_mod_eq [of "s mod 3600" 60] by simp
  then show ?thesis
    using div_mult_mod_eq [of s 3600] by linarith
qed

lemma add_hours_instant:
  "instant_seconds (add_hours t i) = instant_seconds t + i * 3600"
proof -
  define secs where "secs = hour t * 3600 + minute t * 60 + second t + i * 3600"
  have "instant_seconds (add_hours t i)
      = (ordinal t + secs div 86400) * 86400
        + ((secs mod 86400) div 3600 * 3600 + (secs mod 86400) mod 3600 div 60 * 60
           + (secs mod 86400) mod 60)"
    by (simp add: instant_seconds_def add_hours_def Let_def secs_def)
  also have "\<dots> = (ordinal t + secs div 86400) * 86400 + secs mod 86400"
    by (simp only: time_of_day_recombine)
  also have "\<dots> = ordinal t * 86400 + secs"
    using div_mult_mod_eq [of secs 86400] by (simp add: algebra_simps)
  finally show ?thesis by (simp add: secs_def instant_seconds_def)
qed

lemma mod_mult_div_eq:
  fixes a b c :: nat
  shows "a mod (b * c) div b = a div b mod c"
  by (metis add_cancel_right_right div_mult_self4 mod_by_0 mod_div_trivial
      mod_mult2_eq mod_mult_self2_is_0)

lemma add_hours_time_of_day:
  assumes "valid_datetime t"
  shows "hour (add_hours t i) = (hour t + i) mod 24"
    and "minute (add_hours t i) = minute t"
    and "second (add_hours t i) = second t"
    and "microsecond (add_hours t i) = microsecond t"
proof -
  from assms have b: "hour t < 24" "minute t < 60" "second t < 60"
    by (simp_all add: valid_datetime_def)
  define r where "r = minute t * 60 + second t"
  define secs where "secs = hour t * 3600 + minute t * 60 + second t + i * 3600"
  have r: "r < 3600" using b by (simp add: r_def)
  have secs: "secs = (hour t + i) * 3600 + r" by (simp add: secs_def r_def algebra_simps)
  have d: "secs div 3600 = hour t + i"
    using r div_mult_self3 [of 3600 "hour t + i" r] by (simp only: secs)
  have m: "secs mod 3600 = r"
    using r mod_mult_self3 [of "hour t + i" 3600 r] by (simp only: secs mod_less)
  have "(86400::nat) = 3600 * 24" by simp
  then have h: "secs mod 86400 div 3600 = (hour t + i) mod 24"
    by (simp only: mod_mult_div_eq d)
  have "(3600::nat) dvd 86400" by simp
  then have m2: "secs mod 86400 mod 3600 = r"
    using m by (simp only: mod_mod_cancel)
  have "(60::nat) dvd 86400" by simp
  then have s2: "secs mod 86400 mod 60 = secs mod 60"
    by (rule mod_mod_cancel)
  show "hour (add_hours t i) = (hour t + i) mod 24"
    using h by (simp add: add_hours_def Let_def secs_def)
  show "minute (add_hours t i) = minute t"
    using m2 b by (simp add: add_hours_def Let_def secs_def [symmetric] r_def)
  have "secs = (hour t * 60 + minute t + i * 60) * 60 + second t"
    by (simp add: secs_def)
  then have "secs mod 60 = second t"
    using b mod_mult_self3 [of "hour t * 60 + minute t + i * 60" 60 "second t"]
    by (simp only: mod_less)
  then show "second (add_hours t i) = second t"
    using s2 by (simp add: add_hours_def Let_def secs_def [symmetric])
  show "microsecond (add_hours t i) = microsecond t"
    by (simp add: add_hours_def Let_def)
qed


lemma add_hours_zero:
  assumes "valid_datetime t"
  shows "add_hours t 0 = t"
proof -
  from assms have "hour t * 3600 + minute t * 60 + second t < 86400"
    by (simp add: valid_datetime_def)
  then have "ordinal (add_hours t 0) = ordinal t"
    by (simp add: add_hours_def Let_def)
  moreover have "hour (add_hours t 0) = hour t"
    using assms add_hours_time_of_day(1) [OF assms, of 0] by (simp add: valid_datetime_def)
  ultimately show ?thesis
    using add_hours_time_of_day(2-4) [OF assms, of 0] by (simp add: datetime.equality)
qed

lemma forecast_entry_fields:
  "fp_time (forecast_entry t i) = strftime_HM (add_hours t i)"
  "fp_date (forecast_entry t i) = strftime_Ymd (add_hours t i)"
  "fp_period (forecast_entry t i) = tier_label (hour (add_hours t i))"
  "fp_price_per_kwh (forecast_entry t i)
     = py_round (base_price * tier_multiplier (hour (add_hours t i))) 3"
  by (simp_all add: forecast_entry_def Let_def tier_label_def tier_multiplier_def
      split: prod.split)

lemma forecast_of_report:
  "pd_price_forecast (get_mock_energy_prices now reg) = map (forecast_entry (now 1)) [0..<24]"
  by (simp add: get_mock_energy_prices_def Let_def build_forecast_map split: prod.split)

lemma current_period_eq:
  "cp_period (pd_current_price (get_mock_energy_prices now reg)) = tier_label (hour (now 0))"
  by (simp add: get_mock_energy_prices_def tier_label_def Let_def split: prod.split)

lemma zero_pad_samples:
  "zero_pad 2 8 = ''08''" "zero_pad 2 0 = ''00''" "zero_pad 2 22 = ''22''"
  by code_simp+

lemma tier_label_samples: "tier_label 8 = ''peak''" "tier_label 22 = ''off_peak''"
  by (simp_all add: tier_label_def pricing_tier_def)

text \<open>
  C3. For every call of the energy price generator (which does not take the
  \<^verbatim>\<open>include_forecast\<close> flag at all) the forecast has exactly 24 entries; entry \<open>i\<close> is
  made from the moment \<open>i\<close> hours after the clock reading the loop starts from, so the
  moments increase by 3600 seconds from one entry to the next and the first is that
  reading itself; the period and price of an entry come from the tier function at the
  hour of its moment. At 08:00 the first entry is \<^verbatim>\<open>08:00\<close>, peak, and entry 14 is
  \<^verbatim>\<open>22:00\<close>, off-peak. The generator reads the clock once for the current price and
  once more for the forecast: when both readings fall in the same hour, the first entry
  has the period and price of the current price.
\<close>

theorem forecast_has_24_hourly_entries:
  assumes "valid_datetime (now 1)"
  shows "length (pd_price_forecast (get_mock_energy_prices now reg)) = 24
    \<and> pd_price_forecast (get_mock_energy_prices now reg) = map (forecast_entry (now 1)) [0..<24]
    \<and> add_hours (now 1) 0 = now 1
    \<and> (\<forall>i<24.
          fp_time (pd_price_forecast (get_mock_energy_prices now reg) ! i)
            = strftime_HM (add_hours (now 1) i)
        \<and> fp_date (pd_price_forecast (get_mock_energy_prices now reg) ! i)
            = strftime_Ymd (add_hours (now 1) i)
        \<and> fp_period (pd_price_forecast (get_mock_energy_prices now reg) ! i)
            = tier_label (hour (add_hours (now 1) i))
        \<and> fp_price_per_kwh (pd_price_forecast (get_mock_energy_prices now reg) ! i)
            = py_round (base_price * tier_multiplier (hour (add_hours (now 1) i))) 3
        \<and> hour (add_hours (now 1) i) = (hour (now 1) + i) mod 24
        \<and> minute (add_hours (now 1) i) = minute (now 1)
        \<and> instant_seconds (add_hours (now 1) i) = instant_seconds (now 1) + i * 3600
        \<and> instant_seconds (add_hours (now 1) (Suc i))
            = instant_seconds (add_hours (now 1) i) + 3600)
    \<and> (hour (now 1) = 8 \<and> minute (now 1) = 0 \<longrightarrow>
          fp_time (pd_price_forecast (get_mock_energy_prices now reg) ! 0) = ''08:00''
        \<and> fp_period (pd_price_forecast (get_mock_energy_prices now reg) ! 0) = ''peak''
        \<and> fp_time (pd_price_forecast (get_mock_energy_prices now reg) ! 14) = ''22:00''
        \<and> fp_period (pd_price_forecast (get_mock_energy_prices now reg) ! 14) = ''off_peak'')
    \<and> (hour (now 0) = hour (now 1) \<longrightarrow>
          fp_period (pd_price_forecast (get_mock_energy_prices now reg) ! 0)
            = cp_period (pd_current_price (get_mock_energy_prices now reg))
        \<and> fp_price_per_kwh (pd_price_forecast (get_mock_energy_prices now reg) ! 0)
            = cp_price_per_kwh (pd_current_price (get_mock_energy_prices now reg)))"
proof -
  let ?fc = "pd_price_forecast (get_mock_energy_prices now reg)"
  have fc: "?fc = map (forecast_entry (now 1)) [0..<24]"
    by (rule forecast_of_report)
  have nth: "?fc ! i = forecast_entry (now 1) i" if "i < 24" for i
    using that by (simp add: fc)
  have len: "length ?fc = 24" by (simp add: fc)
  have zero: "add_hours (now 1) 0 = now 1"
    by (rule add_hours_zero [OF assms])
  have each: "fp_time (?fc ! i) = strftime_HM (add_hours (now 1) i)
        \<and> fp_date (?fc ! i) = strftime_Ymd (add_hours (now 1) i)
        \<and> fp_period (?fc ! i) = tier_label (hour (add_hours (now 1) i))
        \<and> fp_price_per_kwh (?fc ! i)
            = py_round (base_price * tier_multiplier (hour (add_hours (now 1) i))) 3
        \<and> hour (add_hours (now 1) i) = (hour (now 1) + i) mod 24
        \<and> minute (add_hours (now 1) i) = minute (now 1)
        \<and> instant_seconds (add_hours (now 1) i) = instant_seconds (now 1) + i * 3600
        \<and> instant_seconds (add_hours (now 1) (Suc i))
            = instant_seconds (add_hours (now 1) i) + 3600" if "i < 24" for i
    using nth [OF that] add_hours_time_of_day(1,2) [OF assms, of i]
    by (simp add: forecast_entry_fields add_hours_instant)
  have example: "fp_time (?fc ! 0) = ''08:00'' \<and> fp_period (?fc ! 0) = ''peak''
        \<and> fp_time (?fc ! 14) = ''22:00'' \<and> fp_period (?fc ! 14) = ''off_peak''"
    if h: "hour (now 1) = 8" and m: "minute (now 1) = 0"
  proof -
    have "hour (add_hours (now 1) 14) = 22" "minute (add_hours (now 1) 14) = 0"
      using add_hours_time_of_day(1,2) [OF assms, of 14] h m by simp_all
    then show ?thesis
      using h m zero nth [of 0] nth [of 14]
      by (simp add: forecast_entry_fields strftime_HM_def zero_pad_samples tier_label_samples)
  qed
  have same: "fp_period (?fc ! 0) = cp_period (pd_current_price (get_mock_energy_prices now reg))
        \<and> fp_price_per_kwh (?fc ! 0)
            = cp_price_per_kwh (pd_current_price (get_mock_energy_prices now reg))"
    if "hour (now 0) = hour (now 1)"
    using that zero nth [of 0]
    by (simp add: forecast_entry_fields current_price_eq current_period_eq)
  from len fc zero each example same show ?thesis by blast
qed

lemma valid_at_0800: "valid_datetime at_0800"
  by (simp add: valid_datetime_def at_0800_def)

theorem forecast_has_24_hourly_entries_witness:
  "length (pd_price_forecast (get_mock_energy_prices (constant_clock at_0800) ''EU'')) = 24
   \<and> fp_time (pd_price_forecast (get_mock_energy_prices (constant_clock at_0800) ''EU'') ! 0)
       = ''08:00''
   \<and> fp_period (pd_price_forecast (get_mock_energy_prices (constant_clock at_0800) ''EU'') ! 0)
       = ''peak''
   \<and> fp_time (pd_price_forecast (get_mock_energy_prices (constant_clock at_0800) ''EU'') ! 14)
       = ''22:00''
   \<and> fp_period (pd_price_forecast (get_mock_energy_prices (constant_clock at_0800) ''EU'') ! 14)
       = ''off_peak''"
proof -
  have v: "valid_datetime (constant_clock at_0800 1)"
    by (simp add: constant_clock_def valid_at_0800)
  have h: "hour (constant_clock at_0800 1) = 8 \<and> minute (constant_clock at_0800 1) = 0"
    by (simp add: constant_clock_def at_0800_def)
  from forecast_has_24_hourly_entries [of "constant_clock at_0800" "''EU''"] v h
  show ?thesis by blast
qed

subsection \<open>The forecast section of the energy report\<close>

lemma foldl_append_lines:
  "foldl (\<lambda>result x. result @ f x) acc xs = acc @ concat (map f xs)"
  by (induction xs arbitrary: acc) simp_all

lemma format_energy_without_forecast:
  "format_energy reg d False
     = energy_summary reg d @ raw_data_heading @ json_dumps (Some 2) (price_json d)"
  by (simp add: format_energy_def Let_def)

lemma format_energy_with_forecast:
  "format_energy reg d True
     = energy_summary reg d @ forecast_heading
       @ concat (map forecast_line (take 8 (pd_price_forecast d)))
       @ raw_data_heading @ json_dumps (Some 2) (price_json d)"
  by (simp add: format_energy_def Let_def foldl_append_lines)

lemma first_eight_entries:
  "take 8 (pd_price_forecast (get_mock_energy_prices now reg))
     = map (forecast_entry (now 1)) [0..<8]"
  by (simp add: forecast_of_report take_map)

text \<open>
  C6. For every call of \<^verbatim>\<open>get_energy_prices\<close>: with \<^verbatim>\<open>include_forecast\<close> false the
  result is the summary followed at once by the raw data, with no forecast section; with
  \<^verbatim>\<open>include_forecast\<close> true the forecast heading and exactly 8 lines stand between
  them, the lines being those of the first 8 entries of the forecast in order (the clock
  reading the forecast starts from, then one hour later each), each line giving the time,
  the price and the period label of its entry.
\<close>

theorem forecast_section_only_on_request:
  "get_energy_prices now \<lparr>region = reg, include_forecast = False\<rparr>
     = energy_summary reg (get_mock_energy_prices now reg)
       @ raw_data_heading @ json_dumps (Some 2) (price_json (get_mock_energy_prices now reg))
   \<and> get_energy_prices now \<lparr>region = reg, include_forecast = True\<rparr>
     = energy_summary reg (get_mock_energy_prices now reg)
       @ forecast_heading
       @ concat (map forecast_line (map (forecast_entry (now 1)) [0..<8]))
       @ raw_data_heading @ json_dumps (Some 2) (price_json (get_mock_energy_prices now reg))
   \<and> length (map forecast_line (map (forecast_entry (now 1)) [0..<8])) = 8
   \<and> map (forecast_entry (now 1)) [0..<8]
       = take 8 (pd_price_forecast (get_mock_energy_prices now reg))
   \<and> map forecast_line (map (forecast_entry (now 1)) [0..<8])
       = map (\<lambda>i. bullet @ '' '' @ strftime_HM (add_hours (now 1) i) @ '': '' @ euro
              @ float_repr (py_round (base_price * tier_multiplier (hour (add_hours (now 1) i))) 3)
              @ ''/kWh ('' @ tier_label (hour (add_hours (now 1) i)) @ '')'' @ nl) [0..<8]"
  by (simp add: get_energy_prices_def format_energy_without_forecast
      format_energy_with_forecast first_eight_entries forecast_line_def forecast_entry_fields)

subsection \<open>The raw data of the energy report\<close>

lemma str_join_contains:
  "x \<in> set xs \<Longrightarrow> \<exists>a b. str_join sep xs = a @ x @ b"
proof (induction sep xs rule: str_join.induct)
  case (1 sep)
  then show ?case by simp
next
  case (2 sep y)
  then have "str_join sep [y] = [] @ x @ []" by simp
  then show ?case by blast
next
  case (3 sep y z zs)
  show ?case
  proof (cases "x = y")
    case True
    then have "str_join sep (y # z # zs) = [] @ x @ (sep @ str_join sep (z # zs))" by simp
    then show ?thesis by blast
  next
    case False
    with 3 obtain a b where "str_join sep (z # zs) = a @ x @ b" by auto
    then have "str_join sep (y # z # zs) = (y @ sep @ a) @ x @ b" by simp
    then show ?thesis by blast
  qed
qed

lemma array_encoding_contains:
  assumes "v \<in> set vs"
  shows "\<exists>a b. json_encode ind level (JArray vs) = a @ json_encode ind (Suc level) v @ b"
proof -
  from assms have ne: "vs \<noteq> []" by auto
  from assms have "json_encode ind (Suc level) v \<in> set (map (json_encode ind (Suc level)) vs)"
    by simp
  from str_join_contains [OF this] obtain a b where
    "str_join (item_separator ind @ newline_indent ind (Suc level))
       (map (json_encode ind (Suc level)) vs) = a @ json_encode ind (Suc level) v @ b"
    by blast
  then have "json_encode ind level (JArray vs)
      = (''['' @ newline_indent ind (Suc level) @ a) @ json_encode ind (Suc level) v
        @ (b @ newline_indent ind level @ '']'')"
    using ne by simp
  then show ?thesis by blast
qed

lemma object_encoding_contains:
  assumes "(k, v) \<in> set kvs"
  shows "\<exists>a b. json_encode ind level (JObject kvs) = a @ json_encode ind (Suc level) v @ b"
proof -
  let ?item = "\<lambda>kv. json_string (fst kv) @ '': '' @ json_encode ind (Suc level) (snd kv)"
  from assms have ne: "kvs \<noteq> []" by auto
  from assms have "?item (k, v) \<in> set (map ?item kvs)"
    by force
  from str_join_contains [OF this] obtain a b where
    "str_join (item_separator ind @ newline_indent ind (Suc level)) (map ?item kvs)
       = a @ ?item (k, v) @ b"
    by blast
  then have "json_encode ind level (JObject kvs)
      = (''{'' @ newline_indent ind (Suc level) @ a @ json_string k @ '': '')
        @ json_encode ind (Suc level) v @ (b @ newline_indent ind level @ ''}'')"
    using ne by simp
  then show ?thesis by blast
qed


lemma price_json_shape:
  "\<exists>a b c e. price_json d
     = JObject [a, b, c, (''price_forecast'', JArray (map forecast_point_json (pd_price_forecast d))), e]"
  by (simp add: price_json_def)

lemma dumps_contains_forecast_entry:
  assumes "p \<in> set (pd_price_forecast d)"
  shows "\<exists>a b. json_dumps ind (price_json d)
     = a @ json_encode ind (Suc (Suc 0)) (forecast_point_json p) @ b"
proof -
  let ?arr = "JArray (map forecast_point_json (pd_price_forecast d))"
  obtain x y z e where shape: "price_json d = JObject [x, y, z, (''price_forecast'', ?arr), e]"
    using price_json_shape by blast
  have "(''price_forecast'', ?arr) \<in> set [x, y, z, (''price_forecast'', ?arr), e]" by simp
  from object_encoding_contains [OF this, of ind 0] obtain a b where
    outer: "json_encode ind 0 (price_json d) = a @ json_encode ind (Suc 0) ?arr @ b"
    unfolding shape by blast
  from assms have "forecast_point_json p \<in> set (map forecast_point_json (pd_price_forecast d))"
    by simp
  from array_encoding_contains [OF this, of ind "Suc 0"] obtain a' b' where
    inner: "json_encode ind (Suc 0) ?arr
      = a' @ json_encode ind (Suc (Suc 0)) (forecast_point_json p) @ b'"
    by blast
  have "json_dumps ind (price_json d)
      = (a @ a') @ json_encode ind (Suc (Suc 0)) (forecast_point_json p) @ (b' @ b)"
    by (simp only: json_dumps_def outer inner append_assoc)
  then show ?thesis by blast
qed

text \<open>
  C10. For every call of \<^verbatim>\<open>get_energy_prices\<close>, whatever \<^verbatim>\<open>include_forecast\<close> is,
  the result ends with the raw data heading and the JSON serialization of the full price
  report; the report has 24 forecast entries, its \<^verbatim>\<open>price_forecast\<close> member is the
  array of all 24, and the serialization of each of the 24 entries occurs in the text.
  The flag changes only what stands before the raw data.
\<close>

theorem raw_data_carries_full_forecast:
  "(\<exists>head. get_energy_prices now \<lparr>region = reg, include_forecast = False\<rparr>
       = head @ raw_data_heading @ json_dumps (Some 2) (price_json (get_mock_energy_prices now reg)))
   \<and> (\<exists>head. get_energy_prices now \<lparr>region = reg, include_forecast = True\<rparr>
       = head @ raw_data_heading @ json_dumps (Some 2) (price_json (get_mock_energy_prices now reg)))
   \<and> length (pd_price_forecast (get_mock_energy_prices now reg)) = 24
   \<and> (\<exists>a b c e. price_json (get_mock_energy_prices now reg)
        = JObject [a, b, c,
            (''price_forecast'',
             JArray (map forecast_point_json (map (forecast_entry (now 1)) [0..<24]))), e])
   \<and> (\<forall>i<24. \<exists>a b. json_dumps (Some 2) (price_json (get_mock_energy_prices now reg))
        = a @ json_encode (Some 2) 2 (forecast_point_json (forecast_entry (now 1) i)) @ b)"
proof -
  let ?d = "get_mock_energy_prices now reg"
  let ?tail = "raw_data_heading @ json_dumps (Some 2) (price_json ?d)"
  have off: "get_energy_prices now \<lparr>region = reg, include_forecast = False\<rparr>
      = energy_summary reg ?d @ ?tail"
    by (simp add: get_energy_prices_def format_energy_without_forecast)
  have on: "get_energy_prices now \<lparr>region = reg, include_forecast = True\<rparr>
      = (energy_summary reg ?d @ forecast_heading
          @ concat (map forecast_line (take 8 (pd_price_forecast ?d)))) @ ?tail"
    by (simp add: get_energy_prices_def format_energy_with_forecast)
  have len: "length (pd_price_forecast ?d) = 24"
    by (simp add: forecast_of_report)
  have shape: "\<exists>a b c e. price_json ?d
        = JObject [a, b, c,
            (''price_forecast'',
             JArray (map forecast_point_json (map (forecast_entry (now 1)) [0..<24]))), e]"
    using price_json_shape [of ?d] by (simp only: forecast_of_report)
  have each: "\<exists>a b. json_dumps (Some 2) (price_json ?d)
        = a @ json_encode (Some 2) 2 (forecast_point_json (forecast_entry (now 1) i)) @ b"
    if "i < 24" for i
  proof -
    from that have "forecast_entry (now 1) i \<in> set (pd_price_forecast ?d)"
      by (simp add: forecast_of_report)
    from dumps_contains_forecast_entry [OF this, of "Some 2"] show ?thesis
      by (simp only: numeral_2_eq_2)
  qed
  from off on len shape each show ?thesis by blast
qed

theorem raw_data_carries_full_forecast_witness:
  "length (pd_price_forecast (get_mock_energy_prices (constant_clock at_0800) ''EU'')) = 24
   \<and> (\<exists>a b. json_dumps (Some 2) (price_json (get_mock_energy_prices (constant_clock at_0800) ''EU''))
        = a @ json_encode (Some 2) 2
                (forecast_point_json (forecast_entry (constant_clock at_0800 1) 23)) @ b)"
proof -
  have "(23::nat) < 24" by simp
  with raw_data_carries_full_forecast [of "constant_clock at_0800" "''EU''"]
  show ?thesis by blast
qed

subsection \<open>The generated weather\<close>

lemma random_random_range: "0 \<le> random_random raw \<and> random_random raw < 1"
proof -
  have "raw mod 2 ^ 53 < (2::nat) ^ 53" by simp
  then have "(of_nat (raw mod 2 ^ 53) :: rat) < of_nat (2 ^ 53)"
    by (simp only: of_nat_less_iff)
  then show ?thesis by (simp add: random_random_def)
qed

lemma random_uniform_range:
  assumes "a \<le> b"
  shows "a \<le> random_uniform a b raw \<and> random_uniform a b raw \<le> b"
proof -
  from random_random_range obtain u where u: "u = random_random raw" "0 \<le> u" "u < 1"
    by blast
  from assms u have "0 \<le> (b - a) * u" by simp
  moreover from assms u have "(b - a) * u \<le> (b - a) * 1"
    by (intro mult_left_mono) simp_all
  ultimately show ?thesis by (simp add: random_uniform_def u(1) [symmetric])
qed

lemma round_half_even_range:
  assumes "of_int lo \<le> y" and "y \<le> of_int hi"
  shows "lo \<le> round_half_even y \<and> round_half_even y \<le> hi"
proof -
  have lo: "lo \<le> \<lfloor>y\<rfloor>" using assms(1) by (simp add: le_floor_iff)
  have hi: "\<lfloor>y\<rfloor> \<le> hi" using floor_mono [OF assms(2)] by simp
  have up: "\<lfloor>y\<rfloor> + 1 \<le> hi" if "y \<noteq> of_int \<lfloor>y\<rfloor>"
  proof -
    from that have "of_int \<lfloor>y\<rfloor> < y" using of_int_floor_le [of y] by linarith
    with assms(2) have "(of_int \<lfloor>y\<rfloor> :: rat) < of_int hi" by simp
    then show ?thesis by simp
  qed
  show ?thesis
    using lo hi up by (auto simp add: round_half_even_def Let_def)
qed

lemma py_round_range:
  assumes "of_int lo \<le> x * 10 ^ n" and "x * 10 ^ n \<le> of_int hi"
  shows "of_int lo / 10 ^ n \<le> py_round x n \<and> py_round x n \<le> of_int hi / 10 ^ n"
  using round_half_even_range [OF assms]
  by (simp add: py_round_def divide_le_cancel)

lemma py_round_one_digit:
  assumes "of_int lo \<le> x" and "x \<le> of_int hi"
  shows "of_int lo \<le> py_round x 1 \<and> py_round x 1 \<le> of_int hi"
proof -
  have "of_int (lo * 10) \<le> x * 10 ^ 1" "x * 10 ^ 1 \<le> of_int (hi * 10)"
    using assms by simp_all
  from py_round_range [OF this] show ?thesis by simp
qed

lemma random_randint_range:
  assumes "a \<le> b"
  shows "a \<le> random_randint a b raw \<and> random_randint a b raw \<le> b"
proof -
  from assms have "0 < nat (b - a + 1)" by simp
  then have "raw mod nat (b - a + 1) < nat (b - a + 1)" by (rule mod_less_divisor)
  then have "int (raw mod nat (b - a + 1)) < int (nat (b - a + 1))"
    by (simp only: of_nat_less_iff)
  moreover have "int (nat (b - a + 1)) = b - a + 1" using assms by simp
  ultimately have "int (raw mod nat (b - a + 1)) \<le> b - a" by linarith
  then show ?thesis by (simp add: random_randint_def randbelow_def)
qed

lemma random_choice_member: "seq \<noteq> [] \<Longrightarrow> random_choice seq raw \<in> set seq"
  by (simp add: random_choice_def randbelow_def)

text \<open>
  C7. For every generated weather reading, whatever the random draws (and the clock and
  the location) are: the temperature lies in \<open>[15, 25]\<close>, the felt temperature in
  \<open>[14, 26]\<close>, the humidity is an integer in \<open>[40, 80]\<close>, the pressure an integer in
  \<open>[1000, 1020]\<close>, the wind speed lies in \<open>[1, 10]\<close>, and the two temperatures and
  the wind speed are whole numbers of tenths.
\<close>

theorem generated_weather_within_bounds:
  "15 \<le> w_temp (get_mock_weather_data epoch_seconds now rnd loc)
   \<and> w_temp (get_mock_weather_data epoch_seconds now rnd loc) \<le> 25
   \<and> 14 \<le> w_feels_like (get_mock_weather_data epoch_seconds now rnd loc)
   \<and> w_feels_like (get_mock_weather_data epoch_seconds now rnd loc) \<le> 26
   \<and> 40 \<le> w_humidity (get_mock_weather_data epoch_seconds now rnd loc)
   \<and> w_humidity (get_mock_weather_data epoch_seconds now rnd loc) \<le> 80
   \<and> 1000 \<le> w_pressure (get_mock_weather_data epoch_seconds now rnd loc)
   \<and> w_pressure (get_mock_weather_data epoch_seconds now rnd loc) \<le> 1020
   \<and> 1 \<le> w_wind_speed (get_mock_weather_data epoch_seconds now rnd loc)
   \<and> w_wind_speed (get_mock_weather_data epoch_seconds now rnd loc) \<le> 10
   \<and> (\<exists>k::int. w_temp (get_mock_weather_data epoch_seconds now rnd loc) = of_int k / 10)
   \<and> (\<exists>k::int. w_feels_like (get_mock_weather_data epoch_seconds now rnd loc) = of_int k / 10)
   \<and> (\<exists>k::int. w_wind_speed (get_mock_weather_data epoch_seconds now rnd loc) = of_int k / 10)"
proof -
  let ?w = "get_mock_weather_data epoch_seconds now rnd loc"
  have t: "w_temp ?w = py_round (random_uniform 15 25 (rnd 0)) 1"
    and f: "w_feels_like ?w = py_round (random_uniform 14 26 (rnd 1)) 1"
    and h: "w_humidity ?w = random_randint 40 80 (rnd 2)"
    and p: "w_pressure ?w = random_randint 1000 1020 (rnd 3)"
    and s: "w_wind_speed ?w = py_round (random_uniform 1 10 (rnd 6)) 1"
    by (simp_all add: get_mock_weather_data_def)
  have "of_int 15 \<le> py_round (random_uniform 15 25 (rnd 0)) 1
      \<and> py_round (random_uniform 15 25 (rnd 0)) 1 \<le> of_int 25"
    using random_uniform_range [of 15 25 "rnd 0"] by (intro py_round_one_digit) simp_all
  then have temp: "15 \<le> w_temp ?w \<and> w_temp ?w \<le> 25" by (simp add: t)
  have "of_int 14 \<le> py_round (random_uniform 14 26 (rnd 1)) 1
      \<and> py_round (random_uniform 14 26 (rnd 1)) 1 \<le> of_int 26"
    using random_uniform_range [of 14 26 "rnd 1"] by (intro py_round_one_digit) simp_all
  then have feels: "14 \<le> w_feels_like ?w \<and> w_feels_like ?w \<le> 26" by (simp add: f)
  have "of_int 1 \<le> py_round (random_uniform 1 10 (rnd 6)) 1
      \<and> py_round (random_uniform 1 10 (rnd 6)) 1 \<le> of_int 10"
    using random_uniform_range [of 1 10 "rnd 6"] by (intro py_round_one_digit) simp_all
  then have wind: "1 \<le> w_wind_speed ?w \<and> w_wind_speed ?w \<le> 10" by (simp add: s)
  have hum: "40 \<le> w_humidity ?w \<and> w_humidity ?w \<le> 80"
    using random_randint_range [of 40 80 "rnd 2"] by (simp add: h)
  have pres: "1000 \<le> w_pressure ?w \<and> w_pressure ?w \<le> 1020"
    using random_randint_range [of 1000 1020 "rnd 3"] by (simp add: p)
  have tenth: "\<exists>k::int. py_round x 1 = of_int k / 10" for x
    by (simp add: py_round_def)
  from temp feels hum pres wind tenth [of "random_uniform 15 25 (rnd 0)"]
    tenth [of "random_uniform 14 26 (rnd 1)"] tenth [of "random_uniform 1 10 (rnd 6)"]
  show ?thesis unfolding t f s by blast
qed

subsection \<open>The recommendations of the weather report\<close>

lemma starts_with_iff: "starts_with p s \<longleftrightarrow> (\<exists>b. s = p @ b)"
  by (induction p s rule: starts_with.induct) auto

lemma str_contains_iff: "str_contains sub s \<longleftrightarrow> (\<exists>a b. s = a @ sub @ b)"
proof (induction s)
  case Nil
  then show ?case by auto
next
  case (Cons c cs)
  show ?case
  proof
    assume "str_contains sub (c # cs)"
    then consider "starts_with sub (c # cs)" | "str_contains sub cs" by auto
    then show "\<exists>a b. c # cs = a @ sub @ b"
    proof cases
      case 1
      then obtain b where "c # cs = [] @ sub @ b" by (auto simp: starts_with_iff)
      then show ?thesis by blast
    next
      case 2
      with Cons obtain a b where "cs = a @ sub @ b" by blast
      then have "c # cs = (c # a) @ sub @ b" by simp
      then show ?thesis by blast
    qed
  next
    assume "\<exists>a b. c # cs = a @ sub @ b"
    then obtain a b where ab: "c # cs = a @ sub @ b" by blast
    show "str_contains sub (c # cs)"
    proof (cases a)
      case Nil
      with ab have "starts_with sub (c # cs)" by (auto simp: starts_with_iff)
      then show ?thesis by simp
    next
      case (Cons x xs)
      with ab have "cs = xs @ sub @ b" by simp
      with Cons.IH have "str_contains sub cs" by blast
      then show ?thesis by simp
    qed
  qed
qed

lemma generated_descriptions_lowercase:
  "d \<in> set conditions \<Longrightarrow> lower_ascii d = d"
  by (auto simp: conditions_def lower_ascii_def ascii_to_lower_def ascii_uppercase_def
      ascii_lowercase_def)

lemma heating_examples:
  "heating_recommendation 16 = ''Increase''" "heating_recommendation 20 = ''Maintain''"
  "heating_recommendation 23 = ''Decrease''"
  by (simp_all add: heating_recommendation_def)

text \<open>
  The lighting rule as the specification words it does not give the text the source
  prints: on the generated description \<^verbatim>\<open>few clouds\<close> the source prints
  \<^verbatim>\<open>Low - consider increasing indoor lighting\<close>.
\<close>

theorem weather_recommendations_counterexample:
  "str_contains ''cloud'' (lower_ascii ''few clouds'')
   \<and> spec_lighting ''few clouds'' = ''Low, increase indoor lighting''
   \<and> natural_lighting ''few clouds'' = ''Low - consider increasing indoor lighting''
   \<and> natural_lighting ''few clouds'' \<noteq> spec_lighting ''few clouds''"
  by (simp add: spec_lighting_def natural_lighting_def lower_ascii_def ascii_to_lower_def
      ascii_uppercase_def ascii_lowercase_def)

text \<open>
  C4 (amended). For every weather reading the report carries the three recommendations,
  in this order, each on a line of its own: heating is \<^verbatim>\<open>Increase\<close> if the temperature
  is below 18, \<^verbatim>\<open>Maintain\<close> if it is below 22, else \<^verbatim>\<open>Decrease\<close>; lighting is
  \<^verbatim>\<open>Low - consider increasing indoor lighting\<close> if the condition description contains
  \<^verbatim>\<open>cloud\<close> or \<^verbatim>\<open>rain\<close> as a substring, else \<^verbatim>\<open>Good\<close>; window management is
  \<^verbatim>\<open>Close windows\<close> if the description contains \<^verbatim>\<open>rain\<close>, else
  \<^verbatim>\<open>Consider ventilation\<close>. The source tests the description as it is; the four
  descriptions the generator draws from are in lower case, so on every generated reading
  the test agrees with the case-insensitive one. Temperatures 16, 20 and 23 give \<^verbatim>\<open>Increase\<close>,
  \<^verbatim>\<open>Maintain\<close> and \<^verbatim>\<open>Decrease\<close>.
\<close>

theorem weather_recommendations:
  "(\<exists>head tail. format_weather w
       = head @ bullet @ '' Heating recommendation: ''
          @ (if w_temp w < 18 then ''Increase'' else if w_temp w < 22 then ''Maintain''
             else ''Decrease'') @ nl
          @ bullet @ '' Natural lighting: ''
          @ (if (\<exists>a b. w_description w = a @ ''cloud'' @ b)
                \<or> (\<exists>a b. w_description w = a @ ''rain'' @ b)
             then ''Low - consider increasing indoor lighting'' else ''Good'') @ nl
          @ bullet @ '' Window management: ''
          @ (if (\<exists>a b. w_description w = a @ ''rain'' @ b) then ''Close windows''
             else ''Consider ventilation'') @ nl
          @ tail)
   \<and> (w_description w \<in> set conditions \<longrightarrow>
        lower_ascii (w_description w) = w_description w
        \<and> natural_lighting (w_description w)
           = (if str_contains ''cloud'' (lower_ascii (w_description w))
                 \<or> str_contains ''rain'' (lower_ascii (w_description w))
              then ''Low - consider increasing indoor lighting'' else ''Good''))
   \<and> w_description (get_mock_weather_data epoch_seconds now rnd loc) \<in> set conditions
   \<and> heating_recommendation 16 = ''Increase''
   \<and> heating_recommendation 20 = ''Maintain''
   \<and> heating_recommendation 23 = ''Decrease''"
proof -
  let ?H = "if w_temp w < 18 then ''Increase'' else if w_temp w < 22 then ''Maintain''
     else ''Decrease''"
  let ?L = "if (\<exists>a b. w_description w = a @ ''cloud'' @ b)
        \<or> (\<exists>a b. w_description w = a @ ''rain'' @ b)
     then ''Low - consider increasing indoor lighting'' else ''Good''"
  let ?V = "if (\<exists>a b. w_description w = a @ ''rain'' @ b) then ''Close windows''
     else ''Consider ventilation''"
  have H: "heating_recommendation (w_temp w) = ?H"
    by (simp add: heating_recommendation_def)
  have L: "natural_lighting (w_description w) = ?L"
    by (simp only: natural_lighting_def str_contains_iff)
  have V: "window_management (w_description w) = ?V"
    by (simp only: window_management_def str_contains_iff)
  define head where "head =
     glyph_weather @ '' Weather Data for '' @ w_name w @ '':'' @ nl
     @ ''        '' @ nl
     @ glyph_chart @ '' Current Conditions:'' @ nl
     @ bullet @ '' Temperature: '' @ float_repr (w_temp w) @ degree @ ''C'' @ nl
     @ bullet @ '' Description: '' @ str_title (w_description w) @ nl
     @ bullet @ '' Humidity: '' @ str_int (w_humidity w) @ ''%'' @ nl
     @ bullet @ '' Wind Speed: '' @ float_repr (w_wind_speed w) @ '' m/s'' @ nl
     @ bullet @ '' Pressure: '' @ str_int (w_pressure w) @ '' hPa'' @ nl
     @ nl
     @ glyph_house @ '' HomeGenie Impact:'' @ nl"
  define tail where "tail = nl @ glyph_phone @ '' Raw Data: '' @ json_dumps (Some 2) (weather_json w)"
  have "format_weather w
       = head @ bullet @ '' Heating recommendation: '' @ heating_recommendation (w_temp w) @ nl
          @ bullet @ '' Natural lighting: '' @ natural_lighting (w_description w) @ nl
          @ bullet @ '' Window management: '' @ window_management (w_description w) @ nl
          @ tail"
    by (simp only: format_weather_def head_def tail_def append_assoc)
  then have shape: "\<exists>head tail. format_weather w
       = head @ bullet @ '' Heating recommendation: '' @ ?H @ nl
          @ bullet @ '' Natural lighting: '' @ ?L @ nl
          @ bullet @ '' Window management: '' @ ?V @ nl
          @ tail"
    unfolding H L V by blast
  have lower: "lower_ascii (w_description w) = w_description w
        \<and> natural_lighting (w_description w)
           = (if str_contains ''cloud'' (lower_ascii (w_description w))
                 \<or> str_contains ''rain'' (lower_ascii (w_description w))
              then ''Low - consider increasing indoor lighting'' else ''Good'')"
    if "w_description w \<in> set conditions"
    using generated_descriptions_lowercase [OF that]
    by (simp add: natural_lighting_def)
  have "conditions \<noteq> []" by (simp add: conditions_def)
  then have generated:
    "w_description (get_mock_weather_data epoch_seconds now rnd loc) \<in> set conditions"
    by (simp add: get_mock_weather_data_def random_choice_member)
  from shape lower generated heating_examples show ?thesis by blast
qed

theorem weather_recommendations_witness:
  "w_description sample_reading \<in> set conditions
   \<and> lower_ascii (w_description sample_reading) = w_description sample_reading
   \<and> natural_lighting (w_description sample_reading)
       = ''Low - consider increasing indoor lighting''"
proof -
  have m: "w_description sample_reading \<in> set conditions"
    by (simp add: sample_reading_def conditions_def)
  have c: "str_contains ''cloud'' (lower_ascii (w_description sample_reading))"
    by (simp add: sample_reading_def lower_ascii_def ascii_to_lower_def
      ascii_uppercase_def ascii_lowercase_def)
  from weather_recommendations [of sample_reading] m c show ?thesis by simp
qed

subsection \<open>The recommendations of the energy report\<close>

lemma pricing_tier_values:
  "pricing_tier h = (18 / 10, ''peak'') \<or> pricing_tier h = (7 / 10, ''off_peak'')
     \<or> pricing_tier h = (1, ''standard'')"
  by (simp add: pricing_tier_def)

lemma generated_cost_impact:
  "cost_impact (py_round (base_price * tier_multiplier h) 3)
     = (if tier_label h = ''peak'' then ''High cost - consider energy saving''
        else if tier_label h = ''off_peak'' then ''Low cost - good time for energy-intensive tasks''
        else ''Standard cost'')"
proof -
  consider "pricing_tier h = (18 / 10, ''peak'')" | "pricing_tier h = (7 / 10, ''off_peak'')"
    | "pricing_tier h = (1, ''standard'')"
    using pricing_tier_values by blast
  then show ?thesis
  proof cases
    case 1
    then show ?thesis
      using price_peak by (simp add: tier_multiplier_def tier_label_def cost_impact_def)
  next
    case 2
    then show ?thesis
      using price_off_peak by (simp add: tier_multiplier_def tier_label_def cost_impact_def)
  next
    case 3
    then show ?thesis
      using price_standard by (simp add: tier_multiplier_def tier_label_def cost_impact_def)
  qed
qed

text \<open>
  The cost impact as the specification words it does not give the text the source prints:
  at the peak price 0.45 the source prints \<^verbatim>\<open>High cost - consider energy saving\<close>.
\<close>

theorem energy_recommendations_counterexample:
  "cost_impact (45 / 100) = ''High cost - consider energy saving''
   \<and> spec_cost_impact (45 / 100) = ''High cost''
   \<and> cost_impact (45 / 100) \<noteq> spec_cost_impact (45 / 100)"
  by (simp add: cost_impact_def spec_cost_impact_def)

text \<open>
  C5 (amended). For every price report the summary ends with the cost impact and the smart
  action, each on a line of its own: the cost impact is
  \<^verbatim>\<open>High cost - consider energy saving\<close> when the price is above 0.35,
  \<^verbatim>\<open>Standard cost\<close> when it is above 0.20, and otherwise
  \<^verbatim>\<open>Low cost - good time for energy-intensive tasks\<close>; the smart action is
  \<^verbatim>\<open>Delay washing/heating\<close> when the period is peak, \<^verbatim>\<open>Good time for appliances\<close>
  when it is off-peak, and \<^verbatim>\<open>Normal usage\<close> otherwise. On a generated report the
  three tiers give high, low and standard cost in turn.
\<close>

theorem energy_recommendations:
  "(\<exists>head. energy_summary reg d
       = head @ bullet @ '' Cost Impact: ''
          @ (if cp_price_per_kwh (pd_current_price d) > 35 / 100
             then ''High cost - consider energy saving''
             else if cp_price_per_kwh (pd_current_price d) > 20 / 100 then ''Standard cost''
             else ''Low cost - good time for energy-intensive tasks'') @ nl
          @ bullet @ '' Smart Actions: ''
          @ (if cp_period (pd_current_price d) = ''peak'' then ''Delay washing/heating''
             else if cp_period (pd_current_price d) = ''off_peak'' then ''Good time for appliances''
             else ''Normal usage''))
   \<and> cost_impact (cp_price_per_kwh (pd_current_price (get_mock_energy_prices now reg)))
       = (if tier_label (hour (now 0)) = ''peak'' then ''High cost - consider energy saving''
          else if tier_label (hour (now 0)) = ''off_peak''
          then ''Low cost - good time for energy-intensive tasks''
          else ''Standard cost'')
   \<and> smart_actions (cp_period (pd_current_price (get_mock_energy_prices now reg)))
       = (if tier_label (hour (now 0)) = ''peak'' then ''Delay washing/heating''
          else if tier_label (hour (now 0)) = ''off_peak'' then ''Good time for appliances''
          else ''Normal usage'')"
proof -
  define head where "head =
     glyph_bolt @ '' Energy Prices for '' @ reg @ '':'' @ nl
     @ ''        '' @ nl
     @ glyph_money @ '' Current Price:'' @ nl
     @ bullet @ '' Price: '' @ euro @ float_repr (cp_price_per_kwh (pd_current_price d))
     @ ''/kWh'' @ nl
     @ bullet @ '' Period: '' @ period_title (cp_period (pd_current_price d)) @ nl
     @ bullet @ '' Currency: '' @ cp_currency (pd_current_price d) @ nl
     @ bullet @ '' Last Updated: '' @ take 19 (pd_timestamp d) @ nl
     @ nl
     @ glyph_house @ '' HomeGenie Recommendations:'' @ nl
     @ bullet @ '' Period Type: '' @ period_title (cp_period (pd_current_price d)) @ nl"
  have "energy_summary reg d
       = head @ bullet @ '' Cost Impact: '' @ cost_impact (cp_price_per_kwh (pd_current_price d))
          @ nl @ bullet @ '' Smart Actions: '' @ smart_actions (cp_period (pd_current_price d))"
    by (simp only: energy_summary_def Let_def head_def append_assoc)
  then have shape: "\<exists>head. energy_summary reg d
       = head @ bullet @ '' Cost Impact: ''
          @ (if cp_price_per_kwh (pd_current_price d) > 35 / 100
             then ''High cost - consider energy saving''
             else if cp_price_per_kwh (pd_current_price d) > 20 / 100 then ''Standard cost''
             else ''Low cost - good time for energy-intensive tasks'') @ nl
          @ bullet @ '' Smart Actions: ''
          @ (if cp_period (pd_current_price d) = ''peak'' then ''Delay washing/heating''
             else if cp_period (pd_current_price d) = ''off_peak'' then ''Good time for appliances''
             else ''Normal usage'')"
    unfolding cost_impact_def smart_actions_def by blast
  have cost: "cost_impact (cp_price_per_kwh (pd_current_price (get_mock_energy_prices now reg)))
       = (if tier_label (hour (now 0)) = ''peak'' then ''High cost - consider energy saving''
          else if tier_label (hour (now 0)) = ''off_peak''
          then ''Low cost - good time for energy-intensive tasks''
          else ''Standard cost'')"
    by (simp only: current_price_eq generated_cost_impact)
  have act: "smart_actions (cp_period (pd_current_price (get_mock_energy_prices now reg)))
       = (if tier_label (hour (now 0)) = ''peak'' then ''Delay washing/heating''
          else if tier_label (hour (now 0)) = ''off_peak'' then ''Good time for appliances''
          else ''Normal usage'')"
    by (simp only: current_period_eq smart_actions_def)
  from shape cost act show ?thesis by blast
qed

subsection \<open>Defaults of the tool inputs\<close>

lemma validate_str_cases:
  "p field = None \<Longrightarrow> validate_str field dflt p = Inr dflt"
  "p field = Some (PStr s) \<Longrightarrow> validate_str field dflt p = Inr s"
  "p field = Some (PBool b) \<Longrightarrow> validate_str field dflt p = Inl (ValidationError field)"
  "p field = Some PNull \<Longrightarrow> validate_str field dflt p = Inl (ValidationError field)"
  by (simp_all add: validate_str_def)

lemma validate_bool_cases:
  "p field = None \<Longrightarrow> validate_bool field dflt p = Inr dflt"
  "p field = Some (PBool b) \<Longrightarrow> validate_bool field dflt p = Inr b"
  by (simp_all add: validate_bool_def)

text \<open>
  An empty location is not replaced by the default: the request model keeps the empty
  string. A location that is not a string is rejected, not replaced.
\<close>

theorem request_defaults_counterexample:
  "WeatherRequest_validate (payload_of [(''location'', PStr '''')]) = Inr \<lparr>location = ''''\<rparr>
   \<and> WeatherRequest_validate (payload_of [(''location'', PStr '''')])
       \<noteq> Inr \<lparr>location = ''London''\<rparr>
   \<and> WeatherRequest_validate (payload_of [(''location'', PNull)])
       = Inl (ValidationError ''location'')"
  by (simp add: WeatherRequest_validate_def validate_str_def payload_of_def)

text \<open>
  C8 (amended). For every incoming payload: a location that is absent becomes
  \<^verbatim>\<open>London\<close> and a region that is absent becomes \<^verbatim>\<open>EU\<close> (an absent
  \<^verbatim>\<open>include_forecast\<close> becomes true); a location or region that is present as a
  string, the empty string too, is used as it is, in the request and in the generated
  data; a location or region that is null or a boolean is rejected with a validation
  error and the tool's body does not run; every payload that passes validation gets the
  tool's result.
\<close>

theorem request_defaults:
  "(p ''location'' = None \<longrightarrow> WeatherRequest_validate p = Inr \<lparr>location = ''London''\<rparr>)
   \<and> (p ''location'' = Some (PStr s) \<longrightarrow> WeatherRequest_validate p = Inr \<lparr>location = s\<rparr>)
   \<and> (p ''location'' = Some PNull \<or> p ''location'' = Some (PBool b) \<longrightarrow>
        WeatherRequest_validate p = Inl (ValidationError ''location'')
        \<and> call_get_weather_data epoch_seconds now rnd p = Inl (ValidationError ''location''))
   \<and> (p ''region'' = None \<and> p ''include_forecast'' = None \<longrightarrow>
        EnergyRequest_validate p = Inr \<lparr>region = ''EU'', include_forecast = True\<rparr>)
   \<and> (p ''region'' = None \<and> p ''include_forecast'' = Some (PBool b) \<longrightarrow>
        EnergyRequest_validate p = Inr \<lparr>region = ''EU'', include_forecast = b\<rparr>)
   \<and> (p ''region'' = Some (PStr s) \<and> p ''include_forecast'' = None \<longrightarrow>
        EnergyRequest_validate p = Inr \<lparr>region = s, include_forecast = True\<rparr>)
   \<and> (p ''region'' = Some PNull \<or> p ''region'' = Some (PBool b) \<longrightarrow>
        EnergyRequest_validate p = Inl (ValidationError ''region'')
        \<and> call_get_energy_prices now p = Inl (ValidationError ''region''))
   \<and> (WeatherRequest_validate p = Inr request \<longrightarrow>
        call_get_weather_data epoch_seconds now rnd p
          = Inr (get_weather_data epoch_seconds now rnd request)
        \<and> w_name (get_mock_weather_data epoch_seconds now rnd (location request))
          = location request)
   \<and> (EnergyRequest_validate p = Inr erequest \<longrightarrow>
        call_get_energy_prices now p = Inr (get_energy_prices now erequest)
        \<and> pd_region (get_mock_energy_prices now (region erequest)) = region erequest)"
proof -
  have w1: "WeatherRequest_validate p = Inr \<lparr>location = ''London''\<rparr>" if "p ''location'' = None"
    using that by (simp add: WeatherRequest_validate_def validate_str_cases)
  have w2: "WeatherRequest_validate p = Inr \<lparr>location = s\<rparr>" if "p ''location'' = Some (PStr s)"
    using that by (simp add: WeatherRequest_validate_def validate_str_cases)
  have w3: "WeatherRequest_validate p = Inl (ValidationError ''location'')
        \<and> call_get_weather_data epoch_seconds now rnd p = Inl (ValidationError ''location'')"
    if "p ''location'' = Some PNull \<or> p ''location'' = Some (PBool b)"
    using that
    by (auto simp add: call_get_weather_data_def WeatherRequest_validate_def validate_str_cases)
  have e1: "EnergyRequest_validate p = Inr \<lparr>region = ''EU'', include_forecast = True\<rparr>"
    if "p ''region'' = None \<and> p ''include_forecast'' = None"
    using that by (simp add: EnergyRequest_validate_def validate_str_cases validate_bool_cases)
  have e2: "EnergyRequest_validate p = Inr \<lparr>region = ''EU'', include_forecast = b\<rparr>"
    if "p ''region'' = None \<and> p ''include_forecast'' = Some (PBool b)"
    using that by (simp add: EnergyRequest_validate_def validate_str_cases validate_bool_cases)
  have e3: "EnergyRequest_validate p = Inr \<lparr>region = s, include_forecast = True\<rparr>"
    if "p ''region'' = Some (PStr s) \<and> p ''include_forecast'' = None"
    using that by (simp add: EnergyRequest_validate_def validate_str_cases validate_bool_cases)
  have e4: "EnergyRequest_validate p = Inl (ValidationError ''region'')
        \<and> call_get_energy_prices now p = Inl (ValidationError ''region'')"
    if "p ''region'' = Some PNull \<or> p ''region'' = Some (PBool b)"
    using that
    by (auto simp add: call_get_energy_prices_def EnergyRequest_validate_def validate_str_cases)
  have c1: "call_get_weather_data epoch_seconds now rnd p
          = Inr (get_weather_data epoch_seconds now rnd request)
        \<and> w_name (get_mock_weather_data epoch_seconds now rnd (location request))
          = location request"
    if "WeatherRequest_validate p = Inr request"
    using that by (simp add: call_get_weather_data_def get_mock_weather_data_def)
  have c2: "call_get_energy_prices now p = Inr (get_energy_prices now erequest)
        \<and> pd_region (get_mock_energy_prices now (region erequest)) = region erequest"
    if "EnergyRequest_validate p = Inr erequest"
    using that
    by (simp add: call_get_energy_prices_def get_mock_energy_prices_def Let_def split: prod.split)
  from w1 w2 w3 e1 e2 e3 e4 c1 c2 show ?thesis by blast
qed

theorem request_defaults_witness:
  "WeatherRequest_validate (payload_of []) = Inr \<lparr>location = ''London''\<rparr>
   \<and> EnergyRequest_validate (payload_of []) = Inr \<lparr>region = ''EU'', include_forecast = True\<rparr>
   \<and> WeatherRequest_validate (payload_of [(''location'', PStr ''Paris'')])
       = Inr \<lparr>location = ''Paris''\<rparr>
   \<and> EnergyRequest_validate (payload_of [(''region'', PStr ''UK'')])
       = Inr \<lparr>region = ''UK'', include_forecast = True\<rparr>
   \<and> call_get_energy_prices (constant_clock at_0800) (payload_of [(''region'', PNull)])
       = Inl (ValidationError ''region'')"
proof -
  have a: "payload_of [] ''location'' = None" "payload_of [] ''region'' = None"
    "payload_of [] ''include_forecast'' = None"
    by (simp_all add: payload_of_def)
  have b: "payload_of [(''location'', PStr ''Paris'')] ''location'' = Some (PStr ''Paris'')"
    by (simp add: payload_of_def)
  have c: "payload_of [(''region'', PStr ''UK'')] ''region'' = Some (PStr ''UK'')"
    "payload_of [(''region'', PStr ''UK'')] ''include_forecast'' = None"
    by (simp_all add: payload_of_def)
  have d: "payload_of [(''region'', PNull)] ''region'' = Some PNull"
    by (simp add: payload_of_def)
  from a request_defaults [of "payload_of []"]
  have 1: "WeatherRequest_validate (payload_of []) = Inr \<lparr>location = ''London''\<rparr>
     \<and> EnergyRequest_validate (payload_of []) = Inr \<lparr>region = ''EU'', include_forecast = True\<rparr>"
    by blast
  from b request_defaults [of "payload_of [(''location'', PStr ''Paris'')]" "''Paris''"]
  have 2: "WeatherRequest_validate (payload_of [(''location'', PStr ''Paris'')])
       = Inr \<lparr>location = ''Paris''\<rparr>"
    by blast
  from c request_defaults [of "payload_of [(''region'', PStr ''UK'')]" "''UK''"]
  have 3: "EnergyRequest_validate (payload_of [(''region'', PStr ''UK'')])
       = Inr \<lparr>region = ''UK'', include_forecast = True\<rparr>"
    by blast
  from d request_defaults [of "payload_of [(''region'', PNull)]" _ _ _ "constant_clock at_0800"]
  have 4: "call_get_energy_prices (constant_clock at_0800) (payload_of [(''region'', PNull)])
       = Inl (ValidationError ''region'')"
    by blast
  from 1 2 3 4 show ?thesis by blast
qed

subsection \<open>The health check\<close>

lemma day_of_year_to_month_day:
  fixes r :: nat and leap :: bool
  assumes "r < 365"
  defines "month \<equiv> (r + 50) div 32"
  defines "preceding \<equiv> days_before_month ! month + (if month > 2 \<and> leap then 1 else 0)"
  shows "if preceding > r
         then 1 \<le> month - 1 \<and> month - 1 \<le> 12
              \<and> 1 \<le> r - (preceding
                         - (days_in_month ! (month - 1)
                            + (if month - 1 = 2 \<and> leap then 1 else 0))) + 1
              \<and> r - (preceding
                     - (days_in_month ! (month - 1)
                        + (if month - 1 = 2 \<and> leap then 1 else 0))) + 1 \<le> 31
         else 1 \<le> month \<and> month \<le> 12 \<and> 1 \<le> r - preceding + 1 \<and> r - preceding + 1 \<le> 31"
proof -
  have "1 \<le> month" "month \<le> 12" using assms(1) by (simp_all add: month_def)
  then consider "month = 1" | "month = 2" | "month = 3" | "month = 4" | "month = 5"
    | "month = 6" | "month = 7" | "month = 8" | "month = 9" | "month = 10" | "month = 11"
    | "month = 12"
    using hour_cases [of month] by auto
  then show ?thesis
  proof cases
    case 1
    then have "r < 14" unfolding month_def by linarith
    with 1 show ?thesis
      by (simp add: preceding_def days_before_month_def days_in_month_def)
  next
    case 2
    then have "14 \<le> r" "r < 46" unfolding month_def by linarith+
    with 2 show ?thesis
      by (auto simp add: preceding_def days_before_month_def days_in_month_def)
  next
    case 3
    then have "46 \<le> r" "r < 78" unfolding month_def by linarith+
    with 3 show ?thesis
      by (auto simp add: preceding_def days_before_month_def days_in_month_def)
  next
    case 4
    then have "78 \<le> r" "r < 110" unfolding month_def by linarith+
    with 4 show ?thesis
      by (auto simp add: preceding_def days_before_month_def days_in_month_def)
  next
    case 5
    then have "110 \<le> r" "r < 142" unfolding month_def by linarith+
    with 5 show ?thesis
      by (auto simp add: preceding_def days_before_month_def days_in_month_def)
  next
    case 6
    then have "142 \<le> r" "r < 174" unfolding month_def by linarith+
    with 6 show ?thesis
      by (auto simp add: preceding_def days_before_month_def days_in_month_def)
  next
    case 7
    then have "174 \<le> r" "r < 206" unfolding month_def by linarith+
    with 7 show ?thesis
      by (auto simp add: preceding_def days_before_month_def days_in_month_def)
  next
    case 8
    then have "206 \<le> r" "r < 238" unfolding month_def by linarith+
    with 8 show ?thesis
      by (auto simp add: preceding_def days_before_month_def days_in_month_def)
  next
    case 9
    then have "238 \<le> r" "r < 270" unfolding month_def by linarith+
    with 9 show ?thesis
      by (auto simp add: preceding_def days_before_month_def days_in_month_def)
  next
    case 10
    then have "270 \<le> r" "r < 302" unfolding month_def by linarith+
    with 10 show ?thesis
      by (auto simp add: preceding_def days_before_month_def days_in_month_def)
  next
    case 11
    then have "302 \<le> r" "r < 334" unfolding month_def by linarith+
    with 11 show ?thesis
      by (auto simp add: preceding_def days_before_month_def days_in_month_def)
  next
    case 12
    then have "334 \<le> r" unfolding month_def by linarith
    with 12 assms(1) show ?thesis
      by (auto simp add: preceding_def days_before_month_def days_in_month_def)
  qed
qed

lemma ord2ymd_bounds:
  assumes "1 \<le> n0" and "n0 \<le> 3652059"
  shows "case ord2ymd n0 of
           (y, m, d) \<Rightarrow> 1 \<le> y \<and> y \<le> 9999 \<and> 1 \<le> m \<and> m \<le> 12 \<and> 1 \<le> d \<and> d \<le> 31"
proof -
  define n where "n = n0 - 1"
  define n400 where "n400 = n div 146097"
  define r400 where "r400 = n mod 146097"
  define n100 where "n100 = r400 div 36524"
  define r100 where "r100 = r400 mod 36524"
  define n4 where "n4 = r100 div 1461"
  define r4 where "r4 = r100 mod 1461"
  define n1 where "n1 = r4 div 365"
  define r1 where "r1 = r4 mod 365"
  define year where "year = n400 * 400 + 1 + n100 * 100 + n4 * 4 + n1"
  define leapyear where "leapyear \<longleftrightarrow> (n1 = 3 \<and> (n4 \<noteq> 24 \<or> n100 = 3))"
  have n: "n \<le> 3652058" using assms by (simp add: n_def)
  have d400: "n = 146097 * n400 + r400" and b400: "r400 < 146097"
    by (simp_all add: n400_def r400_def)
  have d100: "r400 = 36524 * n100 + r100" and b100: "r100 < 36524"
    by (simp_all add: n100_def r100_def)
  have d4: "r100 = 1461 * n4 + r4" and b4: "r4 < 1461"
    by (simp_all add: n4_def r4_def)
  have d1: "r4 = 365 * n1 + r1" and b1: "r1 < 365"
    by (simp_all add: n1_def r1_def)
  define month where "month = (r1 + 50) div 32"
  define preceding where
    "preceding = days_before_month ! month + (if month > 2 \<and> leapyear then 1 else 0)"
  define day' where
    "day' = r1 - (preceding
              - (days_in_month ! (month - 1) + (if month - 1 = 2 \<and> leapyear then 1 else 0))) + 1"
  have unfolded: "ord2ymd n0 =
      (if n1 = 4 \<or> n100 = 4 then (year - 1, 12, 31)
       else if preceding > r1 then (year, month - 1, day')
       else (year, month, r1 - preceding + 1))"
    by (simp only: ord2ymd_def Let_def n_def n400_def r400_def n100_def r100_def n4_def r4_def
        n1_def r1_def year_def leapyear_def month_def preceding_def day'_def)
  have md: "if preceding > r1
      then 1 \<le> month - 1 \<and> month - 1 \<le> 12 \<and> 1 \<le> day' \<and> day' \<le> 31
      else 1 \<le> month \<and> month \<le> 12 \<and> 1 \<le> r1 - preceding + 1 \<and> r1 - preceding + 1 \<le> 31"
    using day_of_year_to_month_day [OF b1, of leapyear]
    by (simp only: month_def preceding_def day'_def)
  show ?thesis
  proof (cases "n1 = 4 \<or> n100 = 4")
    case True
    have "2 \<le> year" using True by (auto simp add: year_def)
    moreover have "year \<le> 10000"
      using True n d400 b400 d100 b100 d4 b4 d1 b1 unfolding year_def by linarith
    ultimately have "1 \<le> year - 1 \<and> year - 1 \<le> 9999" by linarith
    then show ?thesis using True by (simp add: unfolded)
  next
    case False
    have "1 \<le> year" by (simp add: year_def)
    moreover have "year \<le> 9999"
    proof -
      have "n1 \<le> 3" "n100 \<le> 3"
        using False b4 d1 b400 d100 by linarith+
      then show ?thesis
        using n d400 b400 d100 b100 d4 b4 d1 b1 unfolding year_def by linarith
    qed
    ultimately show ?thesis
    proof (cases "preceding > r1")
      case True
      with md have "1 \<le> month - 1 \<and> month - 1 \<le> 12 \<and> 1 \<le> day' \<and> day' \<le> 31"
        by (simp only: if_True)
      with \<open>1 \<le> year\<close> \<open>year \<le> 9999\<close> False True show ?thesis
        by (simp add: unfolded)
    next
      case notless: False
      with md have "1 \<le> month \<and> month \<le> 12 \<and> 1 \<le> r1 - preceding + 1
          \<and> r1 - preceding + 1 \<le> 31"
        by (simp only: if_False)
      with \<open>1 \<le> year\<close> \<open>year \<le> 9999\<close> False notless show ?thesis
        by (simp add: unfolded)
    qed
  qed
qed

lemma digit_char_is_digit: "d < 10 \<Longrightarrow> is_digit (digit_char d)"
  using hour_cases [of d] by (auto simp add: is_digit_def digit_char_def)

lemma str_nat_digits: "list_all is_digit (str_nat n)"
proof (induction n rule: str_nat.induct)
  case (1 n)
  show ?case
  proof (cases "n < 10")
    case True
    then show ?thesis by (simp add: str_nat.simps [of n] digit_char_is_digit)
  next
    case False
    with 1 show ?thesis by (simp add: str_nat.simps [of n] digit_char_is_digit)
  qed
qed

lemma length_str_nat: "n < 10 ^ k \<Longrightarrow> 0 < k \<Longrightarrow> length (str_nat n) \<le> k"
proof (induction k arbitrary: n)
  case 0
  then show ?case by simp
next
  case (Suc k)
  show ?case
  proof (cases "n < 10")
    case True
    then show ?thesis by (simp add: str_nat.simps [of n])
  next
    case False
    with Suc.prems have "n div 10 < 10 ^ k" by (simp add: less_mult_imp_div_less mult.commute)
    moreover from False this have "0 < k" by (cases k) auto
    ultimately have "length (str_nat (n div 10)) \<le> k" by (rule Suc.IH)
    with False show ?thesis by (simp add: str_nat.simps [of n])
  qed
qed

lemma zero_pad_shape:
  assumes "n < 10 ^ w" and "0 < w"
  shows "length (zero_pad w n) = w \<and> list_all is_digit (zero_pad w n)"
proof -
  have "length (str_nat n) \<le> w" using assms by (rule length_str_nat)
  moreover have "is_digit (CHR ''0'')" by (simp add: is_digit_def)
  moreover have "\<forall>c\<in>set (str_nat n). is_digit c"
    using str_nat_digits [of n] by (simp only: list_all_iff)
  ultimately show ?thesis
    by (auto simp add: zero_pad_def list_all_iff)
qed

lemma digits_match:
  "list_all is_digit s \<Longrightarrow> matches_pattern (replicate (length s) (CHR ''d'')) s"
  by (induction s) simp_all

lemma zero_pad_matches:
  assumes "n < 10 ^ w" and "0 < w"
  shows "matches_pattern (replicate w (CHR ''d'')) (zero_pad w n)"
  using zero_pad_shape [OF assms] digits_match [of "zero_pad w n"] by simp

lemma digit_patterns:
  "replicate 2 (CHR ''d'') = ''dd''" "replicate 4 (CHR ''d'') = ''dddd''"
  "replicate 6 (CHR ''d'') = ''dddddd''"
  by code_simp+

lemma matches_append:
  "matches_pattern p1 s1 \<Longrightarrow> matches_pattern p2 s2 \<Longrightarrow> matches_pattern (p1 @ p2) (s1 @ s2)"
  by (induction p1 s1 rule: matches_pattern.induct) simp_all

lemma isoformat_well_formed:
  assumes "valid_datetime t"
  shows "is_iso8601 (isoformat t)"
proof -
  obtain y m d where ymd: "ord2ymd (ordinal t) = (y, m, d)"
    by (cases "ord2ymd (ordinal t)") auto
  from assms have "1 \<le> ordinal t" "ordinal t \<le> 3652059" by (simp_all add: valid_datetime_def)
  from ord2ymd_bounds [OF this] ymd have b: "y \<le> 9999" "m \<le> 12" "d \<le> 31" by simp_all
  from assms have c: "hour t < 24" "minute t < 60" "second t < 60" "microsecond t < 1000000"
    by (simp_all add: valid_datetime_def)
  have py: "matches_pattern ''dddd'' (zero_pad 4 y)"
    using zero_pad_matches [of y 4] b by (simp add: digit_patterns)
  have pm: "matches_pattern ''dd'' (zero_pad 2 m)"
    using zero_pad_matches [of m 2] b by (simp add: digit_patterns)
  have pd: "matches_pattern ''dd'' (zero_pad 2 d)"
    using zero_pad_matches [of d 2] b by (simp add: digit_patterns)
  have ph: "matches_pattern ''dd'' (zero_pad 2 (hour t))"
    using zero_pad_matches [of "hour t" 2] c by (simp add: digit_patterns)
  have pmi: "matches_pattern ''dd'' (zero_pad 2 (minute t))"
    using zero_pad_matches [of "minute t" 2] c by (simp add: digit_patterns)
  have ps: "matches_pattern ''dd'' (zero_pad 2 (second t))"
    using zero_pad_matches [of "second t" 2] c by (simp add: digit_patterns)
  have pus: "matches_pattern ''dddddd'' (zero_pad 6 (microsecond t))"
    using zero_pad_matches [of "microsecond t" 6] c by (simp add: digit_patterns)
  have dash: "matches_pattern ''-'' ''-''" and tee: "matches_pattern ''T'' ''T''"
    and colon: "matches_pattern '':'' '':''" and dot: "matches_pattern ''.'' ''.''"
    by simp_all
  have base: "matches_pattern (''dddd'' @ ''-'' @ ''dd'' @ ''-'' @ ''dd'' @ ''T'' @ ''dd'' @ '':''
        @ ''dd'' @ '':'' @ ''dd'')
      (zero_pad 4 y @ ''-'' @ zero_pad 2 m @ ''-'' @ zero_pad 2 d @ ''T'' @ zero_pad 2 (hour t)
        @ '':'' @ zero_pad 2 (minute t) @ '':'' @ zero_pad 2 (second t))"
    by (intro matches_append py pm pd ph pmi ps dash tee colon)
  show ?thesis
  proof (cases "microsecond t = 0")
    case True
    with base show ?thesis
      by (simp add: is_iso8601_def isoformat_def strftime_Ymd_def ymd)
  next
    case False
    have "matches_pattern ((''dddd'' @ ''-'' @ ''dd'' @ ''-'' @ ''dd'' @ ''T'' @ ''dd'' @ '':''
        @ ''dd'' @ '':'' @ ''dd'') @ ''.'' @ ''dddddd'')
      ((zero_pad 4 y @ ''-'' @ zero_pad 2 m @ ''-'' @ zero_pad 2 d @ ''T'' @ zero_pad 2 (hour t)
        @ '':'' @ zero_pad 2 (minute t) @ '':'' @ zero_pad 2 (second t))
        @ ''.'' @ zero_pad 6 (microsecond t))"
      by (intro matches_append base dot pus)
    with False show ?thesis
      by (simp add: is_iso8601_def isoformat_def strftime_Ymd_def ymd)
  qed
qed

lemma json_escape_printable:
  assumes "c \<noteq> dquote" and "c \<noteq> backslash"
    and "32 \<le> (of_char c :: nat)" and "(of_char c :: nat) \<le> 126"
  shows "json_escape (c # cs) = c # json_escape cs"
  using assms by (simp add: Let_def)

lemma iso_chars_printable:
  "list_all (\<lambda>c. c \<noteq> dquote \<and> c \<noteq> backslash \<and> 32 \<le> (of_char c :: nat) \<and> (of_char c :: nat) \<le> 126)
     ''0123456789-T:.''"
  by code_simp

lemma iso_char_printable:
  assumes "iso_char c"
  shows "c \<noteq> dquote \<and> c \<noteq> backslash \<and> 32 \<le> (of_char c :: nat) \<and> (of_char c :: nat) \<le> 126"
  using assms iso_chars_printable unfolding iso_char_def list_all_iff by blast

lemma json_string_literals:
  "json_string ''status'' = [dquote] @ ''status'' @ [dquote]"
  "json_string ''healthy'' = [dquote] @ ''healthy'' @ [dquote]"
  "json_string ''timestamp'' = [dquote] @ ''timestamp'' @ [dquote]"
  "json_string ''service'' = [dquote] @ ''service'' @ [dquote]"
  "json_string ''HomeGenie MCP Server'' = [dquote] @ ''HomeGenie MCP Server'' @ [dquote]"
  "json_string ''version'' = [dquote] @ ''version'' @ [dquote]"
  "json_string ''1.0.0'' = [dquote] @ ''1.0.0'' @ [dquote]"
  by code_simp+

lemma json_escape_plain:
  "list_all iso_char s \<Longrightarrow> json_escape s = s"
proof (induction s)
  case Nil
  then show ?case by simp
next
  case (Cons c cs)
  then have c: "iso_char c" and cs: "json_escape cs = cs" by simp_all
  from iso_char_printable [OF c] have "json_escape (c # cs) = c # json_escape cs"
    by (intro json_escape_printable) simp_all
  with cs show ?case by (simp only:)
qed

lemma digit_is_iso_char:
  assumes "is_digit c"
  shows "iso_char c"
proof -
  have "''0123456789-T:.'' = ''0123456789'' @ ''-T:.''" by simp
  then have "set ''0123456789'' \<subseteq> set ''0123456789-T:.''"
    by (simp only: set_append Un_upper1)
  with assms show ?thesis unfolding is_digit_def iso_char_def by (rule rev_subsetD)
qed

lemma separators_iso_char:
  "iso_char (CHR ''-'')" "iso_char (CHR ''T'')" "iso_char (CHR '':'')" "iso_char (CHR ''.'')"
  by (simp_all add: iso_char_def)

lemma zero_pad_plain: "list_all iso_char (zero_pad w n)"
proof -
  have "list_all iso_char (str_nat n)"
    using str_nat_digits [of n] digit_is_iso_char by (simp add: list_all_iff)
  moreover have "iso_char (CHR ''0'')" by (simp add: iso_char_def)
  ultimately show ?thesis
    by (auto simp add: zero_pad_def list_all_iff)
qed

lemma isoformat_plain: "list_all iso_char (isoformat t)"
  by (simp add: isoformat_def strftime_Ymd_def zero_pad_plain separators_iso_char
      split: prod.split)

lemma json_string_isoformat: "json_string (isoformat t) = [dquote] @ isoformat t @ [dquote]"
  by (simp add: json_string_def json_escape_plain [OF isoformat_plain])

lemma health_check_text:
  "health_check now
       = ''{'' @ [dquote] @ ''status'' @ [dquote] @ '': '' @ [dquote] @ ''healthy'' @ [dquote]
         @ '', '' @ [dquote] @ ''timestamp'' @ [dquote] @ '': ''
         @ [dquote] @ isoformat (now 0) @ [dquote]
         @ '', '' @ [dquote] @ ''service'' @ [dquote] @ '': ''
         @ [dquote] @ ''HomeGenie MCP Server'' @ [dquote]
         @ '', '' @ [dquote] @ ''version'' @ [dquote] @ '': '' @ [dquote] @ ''1.0.0'' @ [dquote]
         @ ''}''"
  by (simp add: health_check_def health_payload_def json_dumps_def newline_indent_def
        item_separator_def json_string_isoformat json_string_literals)

lemma ord2ymd_sample: "ord2ymd 738945 = (2024, 2, 29)"
  by (simp add: ord2ymd_def Let_def days_before_month_def days_in_month_def)

lemma zero_pad_date_samples:
  "zero_pad 4 2024 = ''2024''" "zero_pad 2 2 = ''02''" "zero_pad 2 29 = ''29''"
  by code_simp+

lemma isoformat_at_0800: "isoformat at_0800 = ''2024-02-29T08:00:00''"
  by (simp add: isoformat_def strftime_Ymd_def at_0800_def ord2ymd_sample zero_pad_date_samples
      zero_pad_samples)

text \<open>
  C9. Every call of \<^verbatim>\<open>health_check\<close> returns the one-line JSON object with the members
  \<^verbatim>\<open>status\<close>, \<^verbatim>\<open>timestamp\<close>, \<^verbatim>\<open>service\<close> and \<^verbatim>\<open>version\<close>, in this order; the
  status is \<^verbatim>\<open>healthy\<close>, the service \<^verbatim>\<open>HomeGenie MCP Server\<close>, the version
  \<^verbatim>\<open>1.0.0\<close>, and the timestamp is the clock reading made during the call, written to
  the microsecond in the ISO-8601 shape \<^verbatim>\<open>YYYY-MM-DDTHH:MM:SS[.ffffff]\<close> with a year in
  1..9999, a month in 1..12 and a day in 1..31.
\<close>

theorem health_check_reports_healthy:
  assumes "valid_datetime (now 0)"
  shows "health_payload now
       = JObject [(''status'', JString ''healthy''),
                  (''timestamp'', JString (isoformat (now 0))),
                  (''service'', JString ''HomeGenie MCP Server''),
                  (''version'', JString ''1.0.0'')]
    \<and> health_check now
       = ''{'' @ [dquote] @ ''status'' @ [dquote] @ '': '' @ [dquote] @ ''healthy'' @ [dquote]
         @ '', '' @ [dquote] @ ''timestamp'' @ [dquote] @ '': ''
         @ [dquote] @ isoformat (now 0) @ [dquote]
         @ '', '' @ [dquote] @ ''service'' @ [dquote] @ '': ''
         @ [dquote] @ ''HomeGenie MCP Server'' @ [dquote]
         @ '', '' @ [dquote] @ ''version'' @ [dquote] @ '': '' @ [dquote] @ ''1.0.0'' @ [dquote]
         @ ''}''
    \<and> is_iso8601 (isoformat (now 0))
    \<and> (case ord2ymd (ordinal (now 0)) of
          (y, m, d) \<Rightarrow>
            1 \<le> y \<and> y \<le> 9999 \<and> 1 \<le> m \<and> m \<le> 12 \<and> 1 \<le> d \<and> d \<le> 31
            \<and> isoformat (now 0)
               = zero_pad 4 y @ ''-'' @ zero_pad 2 m @ ''-'' @ zero_pad 2 d @ ''T''
                 @ zero_pad 2 (hour (now 0)) @ '':'' @ zero_pad 2 (minute (now 0)) @ '':''
                 @ zero_pad 2 (second (now 0))
                 @ (if microsecond (now 0) = 0 then []
                    else ''.'' @ zero_pad 6 (microsecond (now 0))))"
proof -
  have payload: "health_payload now
       = JObject [(''status'', JString ''healthy''),
                  (''timestamp'', JString (isoformat (now 0))),
                  (''service'', JString ''HomeGenie MCP Server''),
                  (''version'', JString ''1.0.0'')]"
    by (simp add: health_payload_def)
  note rendered = health_check_text [of now]
  have iso: "is_iso8601 (isoformat (now 0))"
    by (rule isoformat_well_formed [OF assms])
  obtain y m d where ymd: "ord2ymd (ordinal (now 0)) = (y, m, d)"
    by (cases "ord2ymd (ordinal (now 0))") auto
  from assms have "1 \<le> ordinal (now 0)" "ordinal (now 0) \<le> 3652059"
    by (simp_all add: valid_datetime_def)
  from ord2ymd_bounds [OF this]
  have "1 \<le> y \<and> y \<le> 9999 \<and> 1 \<le> m \<and> m \<le> 12 \<and> 1 \<le> d \<and> d \<le> 31"
    by (simp add: ymd)
  then have parts: "case ord2ymd (ordinal (now 0)) of
          (y, m, d) \<Rightarrow>
            1 \<le> y \<and> y \<le> 9999 \<and> 1 \<le> m \<and> m \<le> 12 \<and> 1 \<le> d \<and> d \<le> 31
            \<and> isoformat (now 0)
               = zero_pad 4 y @ ''-'' @ zero_pad 2 m @ ''-'' @ zero_pad 2 d @ ''T''
                 @ zero_pad 2 (hour (now 0)) @ '':'' @ zero_pad 2 (minute (now 0)) @ '':''
                 @ zero_pad 2 (second (now 0))
                 @ (if microsecond (now 0) = 0 then []
                    else ''.'' @ zero_pad 6 (microsecond (now 0)))"
    by (simp add: ymd isoformat_def strftime_Ymd_def)
  from payload rendered iso parts show ?thesis by blast
qed

theorem health_check_reports_healthy_witness:
  "health_check (constant_clock at_0800)
     = ''{'' @ [dquote] @ ''status'' @ [dquote] @ '': '' @ [dquote] @ ''healthy'' @ [dquote]
       @ '', '' @ [dquote] @ ''timestamp'' @ [dquote] @ '': ''
       @ [dquote] @ ''2024-02-29T08:00:00'' @ [dquote]
       @ '', '' @ [dquote] @ ''service'' @ [dquote] @ '': ''
       @ [dquote] @ ''HomeGenie MCP Server'' @ [dquote]
       @ '', '' @ [dquote] @ ''version'' @ [dquote] @ '': '' @ [dquote] @ ''1.0.0'' @ [dquote]
       @ ''}''
   \<and> is_iso8601 ''2024-02-29T08:00:00''"
proof -
  have v: "valid_datetime (constant_clock at_0800 0)"
    by (simp add: constant_clock_def valid_at_0800)
  have t: "isoformat (constant_clock at_0800 0) = ''2024-02-29T08:00:00''"
    by (simp add: constant_clock_def isoformat_at_0800)
  from health_check_reports_healthy [of "constant_clock at_0800"] v
  have "health_check (constant_clock at_0800)
     = ''{'' @ [dquote] @ ''status'' @ [dquote] @ '': '' @ [dquote] @ ''healthy'' @ [dquote]
       @ '', '' @ [dquote] @ ''timestamp'' @ [dquote] @ '': ''
       @ [dquote] @ isoformat (constant_clock at_0800 0) @ [dquote]
       @ '', '' @ [dquote] @ ''service'' @ [dquote] @ '': ''
       @ [dquote] @ ''HomeGenie MCP Server'' @ [dquote]
       @ '', '' @ [dquote] @ ''version'' @ [dquote] @ '': '' @ [dquote] @ ''1.0.0'' @ [dquote]
       @ ''}''
   \<and> is_iso8601 (isoformat (constant_clock at_0800 0))"
    by blast
  then show ?thesis by (simp only: t)
qed

end
